theory Spec2Isabelle
  imports Main "HOL-Library.Sublist" "HOL-Library.AList"
begin

section \<open>Strings and JavaScript values\<close>

text \<open>
  A JavaScript string is a sequence of UTF-16 code units. Here a string is a list of
  \<^typ>\<open>char\<close>, one per code unit, so \<open>length\<close> is \<open>.length\<close>, \<open>take\<close>/\<open>drop\<close> are
  \<open>slice\<close>, \<open>suffix\<close> is \<open>endsWith\<close>, \<open>prefix\<close> is \<open>startsWith\<close> and \<open>sublist\<close> is
  \<open>includes\<close>. Only code units below 256 are distinguished; white space and letter case
  are those of that range.
\<close>

definition isWhiteSpace :: "char \<Rightarrow> bool" where
  "isWhiteSpace c \<longleftrightarrow>
     c \<in> set [CHR 0x09, CHR 0x0A, CHR 0x0B, CHR 0x0C, CHR 0x0D, CHR 0x20, CHR 0xA0]"

definition trim :: "string \<Rightarrow> string" where
  "trim s = rev (dropWhile isWhiteSpace (rev (dropWhile isWhiteSpace s)))"

definition toLowerChar :: "char \<Rightarrow> char" where
  "toLowerChar c =
     (let n = (of_char c :: nat)
      in if (65 \<le> n \<and> n \<le> 90) \<or> (192 \<le> n \<and> n \<le> 222 \<and> n \<noteq> 215)
         then char_of (n + 32) else c)"

definition toLowerCase :: "string \<Rightarrow> string" where
  "toLowerCase s = map toLowerChar s"

text \<open>Truthiness of a string (\<open>!s\<close>, \<open>s || d\<close>, \<open>filter(Boolean)\<close>): the empty string is falsy.\<close>

definition truthy :: "string \<Rightarrow> bool" where
  "truthy s \<longleftrightarrow> s \<noteq> []"

text \<open>A value that may be \<open>undefined\<close> or \<open>null\<close> is an option; \<open>x || d\<close> on it:\<close>

definition orElse :: "string option \<Rightarrow> string \<Rightarrow> string" where
  "orElse x d = (case x of None \<Rightarrow> d | Some s \<Rightarrow> if truthy s then s else d)"

definition truthyOpt :: "string option \<Rightarrow> bool" where
  "truthyOpt x \<longleftrightarrow> (case x of None \<Rightarrow> False | Some s \<Rightarrow> truthy s)"

text \<open>\<open>String(n)\<close> for a non-negative integer: its decimal digits.\<close>

definition digitChar :: "nat \<Rightarrow> char" where
  "digitChar d = ''0123456789'' ! d"

fun showNat :: "nat \<Rightarrow> string" where
  "showNat n = (if n < 10 then [digitChar n] else showNat (n div 10) @ [digitChar (n mod 10)])"

declare showNat.simps [simp del]

definition showInt :: "int \<Rightarrow> string" where
  "showInt i = (if i < 0 then CHR ''-'' # showNat (nat (- i)) else showNat (nat i))"

text \<open>\<open>s.padStart(2, '0')\<close>.\<close>

definition padStart2 :: "string \<Rightarrow> string" where
  "padStart2 s = replicate (2 - length s) CHR ''0'' @ s"

section \<open>Data model (types.ts)\<close>

datatype status = Pending | Completed

datatype memoryType = Note | Plan | Inspiration

text \<open>
  Optional fields (\<open>location?\<close>, \<open>targetDate?\<close>, \<open>status?\<close>, ...) are options, \<open>None\<close> for
  an absent field. The rating is a number that no handler inspects.
\<close>

record StructuredItem =
  title :: string
  category :: string
  description :: string
  location :: "string option"
  rating :: "int option"
  actionItem :: "string option"
  targetDate :: "string option"
  status :: "status option"

text \<open>
  \<open>rootCategory\<close> is declared a string, but \<open>handleProcessInput\<close> stores two other
  kinds of value in it. One is \<open>availableCategories[0]\<close>, which is \<open>undefined\<close> on an
  empty list: \<open>None\<close> is that \<open>undefined\<close>. The other is
  \<open>projectToCategoryMap[finalProject]\<close>, read from a plain object \<open>{}\<close>: under a name
  that no project has but that every object inherits from \<open>Object.prototype\<close>, the value
  read is the inherited member, a function, or for \<open>__proto__\<close> the prototype object
  itself. \<open>Member k\<close> is the member of name \<open>k\<close>, and \<open>Parsed\<close> is the empty object that
  the prototype object has become once the Memories were written to storage and read
  back. The state variable \<open>selectedRootCategory\<close> receives the same values.
\<close>

datatype category = Named string | Member string | Parsed

text \<open>The members of \<open>Object.prototype\<close>, those of Annex B of ECMAScript included.\<close>

definition objectPrototypeKeys :: "string list" where
  "objectPrototypeKeys =
     [''constructor'', ''__defineGetter__'', ''__defineSetter__'', ''hasOwnProperty'',
      ''__lookupGetter__'', ''__lookupSetter__'', ''isPrototypeOf'', ''propertyIsEnumerable'',
      ''toString'', ''valueOf'', ''__proto__'', ''toLocaleString'']"

text \<open>Truthiness: a function and an object are truthy, a string unless it is empty.\<close>

definition truthyCat :: "category option \<Rightarrow> bool" where
  "truthyCat x \<longleftrightarrow> (case x of None \<Rightarrow> False | Some (Named s) \<Rightarrow> truthy s | Some _ \<Rightarrow> True)"

text \<open>
  The property key that a value stands for in \<open>hierarchy[m.rootCategory]\<close>: the string
  itself, the source text that the engine gives for a built-in function (that of V8
  here), and \<open>[object Object]\<close> for an object.
\<close>

definition keyOf :: "category \<Rightarrow> string" where
  "keyOf c =
     (case c of
        Named s \<Rightarrow> s
      | Member k \<Rightarrow>
          if k = ''__proto__'' then ''[object Object]''
          else ''function '' @ (if k = ''constructor'' then ''Object'' else k) @ ''() { [native code] }''
      | Parsed \<Rightarrow> ''[object Object]'')"

text \<open>
  \<open>a === b\<close> on two such values, where \<open>b\<close> is held by the component state: two
  strings are compared by content, a function or the prototype with itself, and a parsed
  object is identical to no other value.
\<close>

definition strictEq :: "category option \<Rightarrow> category option \<Rightarrow> bool" where
  "strictEq a b \<longleftrightarrow> a = b \<and> a \<noteq> Some Parsed"

text \<open>The fields \<open>id\<close> and \<open>type\<close> are \<open>memId\<close> and \<open>memType\<close> here.\<close>

record Memory =
  memId :: string
  originalText :: string
  rootCategory :: "category option"
  project :: string
  subProject :: "string option"
  memType :: memoryType
  structuredContent :: "StructuredItem list"
  createdAt :: int
  tags :: "string list"
  attachedImage :: "string option"

record Task =
  taskId :: string
  taskTitle :: string
  day :: int
  taskStatus :: status
  feedback :: "string option"

datatype AppTab = INPUT | TODAY | MEMORY

record ProcessingResult =
  resRootCategory :: string
  resProject :: string
  resSubProject :: string
  resType :: memoryType
  resTags :: "string list"
  resItems :: "StructuredItem list"

record PlanningResult =
  planName :: string
  planTasks :: "(int \<times> string) list"

section \<open>Hierarchy deriver and reconciliation (App.tsx)\<close>

text \<open>
  \<open>hierarchy\<close> is a plain object used as a dictionary from root categories to project
  lists. Its own entries are an association list in insertion order: assigning to a key
  that exists keeps its place, a new key goes to the end (\<^const>\<open>AList.update\<close>), and
  \<open>Object.entries\<close> lists them in that order. Three things that a plain object does
  besides are not part of \<open>addMemory\<close> and \<open>getProjectHierarchy\<close>, which are meant
  for the root categories that do not meet them. A key that looks like an array index
  (\<open>'0'\<close>, \<open>'1'\<close>, ...) is enumerated before the others. Reading \<open>hierarchy[k]\<close> for
  a key without an entry gives, under a name of \<open>objectPrototypeKeys\<close>, the inherited
  member, on which \<open>.includes\<close> cannot be called. Assigning to \<open>__proto__\<close> replaces
  the prototype of the object instead of making an entry.
\<close>

type_synonym hierarchy = "(string \<times> string list) list"

definition addMemory :: "hierarchy \<Rightarrow> Memory \<Rightarrow> hierarchy" where
  "addMemory h m =
     (if truthyCat (rootCategory m) \<and> truthy (project m) \<and> project m \<noteq> ''General'' then
        (let rc = keyOf (the (rootCategory m));
             h1 = (case map_of h rc of None \<Rightarrow> AList.update rc [] h | Some _ \<Rightarrow> h);
             ps = (case map_of h1 rc of None \<Rightarrow> [] | Some ps \<Rightarrow> ps)
         in if project m \<in> set ps then h1 else AList.update rc (ps @ [project m]) h1)
      else h)"

definition getProjectHierarchy :: "string list \<Rightarrow> Memory list \<Rightarrow> hierarchy" where
  "getProjectHierarchy cats mems =
     foldl addMemory (foldl (\<lambda>h cat. AList.update cat [] h) [] cats) mems"

text \<open>
  \<open>const projectToCategoryMap: Record<string, string> = {}\<close> is a plain object as well;
  it is only written and read, so it is the function that \<open>projectToCategoryMap[p]\<close>
  computes, \<open>None\<close> for \<open>undefined\<close>. The empty object already answers the names of
  \<open>objectPrototypeKeys\<close> with the inherited members. \<open>projectToCategoryMap[p] = cat\<close>
  makes or overwrites an own entry, which hides an inherited member of that name, except
  for \<open>__proto__\<close>: that assignment calls the inherited setter, which ignores a string.
\<close>

definition emptyObject :: "string \<Rightarrow> category option" where
  "emptyObject k = (if k \<in> set objectPrototypeKeys then Some (Member k) else None)"

definition assign :: "string \<Rightarrow> string \<Rightarrow> (string \<Rightarrow> category option) \<Rightarrow> (string \<Rightarrow> category option)" where
  "assign p cat obj = (if p = ''__proto__'' then obj else obj(p \<mapsto> Named cat))"

text \<open>
  \<open>Object.entries(hierarchy).forEach(([cat, projs]) => projs.forEach(p =>
  projectToCategoryMap[p] = cat))\<close>: a later entry overwrites an earlier one.
\<close>

definition projectToCategoryMap :: "hierarchy \<Rightarrow> (string \<Rightarrow> category option)" where
  "projectToCategoryMap h =
     foldl (\<lambda>obj (cat, projs). foldl (\<lambda>obj p. assign p cat obj) obj projs) emptyObject h"

text \<open>\<open>availableCategories.includes(c)\<close>, which holds of no value but a string of the
  list, and \<open>availableCategories[0]\<close>, which is \<open>undefined\<close> on the empty list.\<close>

definition includesOpt :: "string list \<Rightarrow> category option \<Rightarrow> bool" where
  "includesOpt cats c \<longleftrightarrow> (case c of Some (Named x) \<Rightarrow> x \<in> set cats | _ \<Rightarrow> False)"

definition first :: "string list \<Rightarrow> category option" where
  "first cats = (case cats of [] \<Rightarrow> None | c # _ \<Rightarrow> Some (Named c))"

text \<open>
  The post-processing of \<open>handleProcessInput\<close> (lines 319-328 and 1009-1025), from the
  declared \<open>(result.rootCategory, result.project)\<close> to \<open>(finalCategory, finalProject)\<close>.
  \<open>!projectToCategoryMap[finalProject]\<close> holds for \<open>undefined\<close> and for an empty string; it
  fails for a non-empty string and for an inherited member, and then
  \<open>finalCategory = projectToCategoryMap[finalProject]\<close> takes whichever it is.
\<close>

definition reconcile ::
  "string list \<Rightarrow> (string \<Rightarrow> category option) \<Rightarrow> category option \<times> string
     \<Rightarrow> category option \<times> string" where
  "reconcile cats p2c declared =
     (let finalCategory = fst declared; finalProject = snd declared
      in if finalProject = ''General'' then
           (if \<not> includesOpt cats finalCategory then (first cats, finalProject)
            else (finalCategory, finalProject))
         else if \<not> truthyCat (p2c finalProject) then
           (if \<not> includesOpt cats finalCategory then (first cats, ''General'')
            else (finalCategory, ''General''))
         else (p2c finalProject, finalProject))"

text \<open>
  \<open>isProjectNameGloballyUnique\<close> (lines 203-207): \<open>'General'\<close> always passes, any other
  name passes when no Memory has it as its project.
\<close>

definition isProjectNameGloballyUnique :: "Memory list \<Rightarrow> string \<Rightarrow> bool" where
  "isProjectNameGloballyUnique mems name \<longleftrightarrow>
     (if name = ''General'' then True else name \<notin> set (map project mems))"

section \<open>Application state\<close>

text \<open>
  The component state that the handlers read and write. An \<open>alert\<close> is recorded as a
  notice appended to \<open>notices\<close>; the two copies of the component word their alerts
  differently, so a notice names the occasion rather than the text.
\<close>

datatype notice = ProcessingFailed | KeepOneCategory | ProjectExists

record App =
  memories :: "Memory list"
  tasks :: "Task list"
  availableCategories :: "string list"
  inputText :: string
  selectedImage :: "string option"
  isCompressingImage :: bool
  isProcessing :: bool
  currentTab :: AppTab
  selectedRootCategory :: "category option"
  expandedProjects :: "string set"
  managerSelectedCategory :: "string option"
  tempCategoryName :: string
  tempProjectName :: string
  newProjectName :: string
  newProjectCategory :: string
  showAddProjectModal :: bool
  notices :: "notice list"

text \<open>
  A \<open>Date\<close> as the component observes it: \<open>getTime()\<close> in milliseconds and the local
  calendar fields \<open>getFullYear()\<close>, \<open>getMonth()\<close> (from 0) and \<open>getDate()\<close>. The
  calendar itself is the platform's: a handler that reads the clock takes the \<open>Date\<close>
  of that instant as an argument.
\<close>

record JsDate =
  getTime :: int
  getFullYear :: int
  getMonth :: nat
  getDate :: nat

definition formatDate :: "JsDate \<Rightarrow> string" where
  "formatDate d =
     showInt (getFullYear d) @ ''.'' @ padStart2 (showNat (getMonth d + 1)) @ ''.''
       @ padStart2 (showNat (getDate d))"

section \<open>Completion, deletion and editing of items\<close>

text \<open>\<open>s.split(c)\<close> for a one-character separator: never empty, \<open>''.split(c)\<close> is \<open>['']\<close>.\<close>

fun splitOn :: "char \<Rightarrow> string \<Rightarrow> string list" where
  "splitOn c [] = [[]]"
| "splitOn c (x # xs) =
     (if x = c then [] # splitOn c xs
      else (case splitOn c xs of [] \<Rightarrow> [[x]] | w # ws \<Rightarrow> (x # w) # ws))"

definition isDigit :: "char \<Rightarrow> bool" where
  "isDigit c \<longleftrightarrow> 48 \<le> (of_char c :: nat) \<and> (of_char c :: nat) \<le> 57"

definition digitVal :: "char \<Rightarrow> nat" where
  "digitVal c = of_char c - 48"

text \<open>
  \<open>parseInt(s, 10)\<close>: leading white space, an optional sign, then the longest run of
  digits; \<open>None\<close> is \<open>NaN\<close>. \<open>parseInt(undefined, 10)\<close> is \<open>NaN\<close> as well.
\<close>

definition parseInt10 :: "string \<Rightarrow> int option" where
  "parseInt10 s =
     (let t = dropWhile isWhiteSpace s;
          neg = (case t of [] \<Rightarrow> False | c # _ \<Rightarrow> c = CHR ''-'');
          u = (case t of [] \<Rightarrow> [] | c # r \<Rightarrow> if c = CHR ''-'' \<or> c = CHR ''+'' then r else t);
          ds = takeWhile isDigit u
      in if ds = [] then None
         else Some ((if neg then - 1 else 1) * int (foldl (\<lambda>a c. 10 * a + digitVal c) 0 ds)))"

definition parseIntOpt :: "string option \<Rightarrow> int option" where
  "parseIntOpt x = (case x of None \<Rightarrow> None | Some s \<Rightarrow> parseInt10 s)"

text \<open>
  \<open>handleTaskComplete\<close>, lines 347-364. \<open>newContent[idx]\<close> is an item exactly when
  \<open>idx\<close> is an integer within the array; the new status is \<open>'completed'\<close> when the old one
  is \<open>'pending'\<close> and \<open>'pending'\<close> otherwise, also for an item without a status.
\<close>

definition toggleStatus :: "status option \<Rightarrow> status option" where
  "toggleStatus st = (if st = Some Pending then Some Completed else Some Pending)"

definition toggleItemAt ::
  "(status option \<Rightarrow> status option) \<Rightarrow> int option \<Rightarrow> StructuredItem list \<Rightarrow> StructuredItem list" where
  "toggleItemAt tog idx newContent =
     (case idx of
        None \<Rightarrow> newContent
      | Some i \<Rightarrow>
          if 0 \<le> i \<and> nat i < length newContent
          then newContent[nat i := (newContent ! nat i)\<lparr>status := tog (status (newContent ! nat i))\<rparr>]
          else newContent)"

definition toggleTask :: "Task \<Rightarrow> Task" where
  "toggleTask t = t\<lparr>taskStatus := (if taskStatus t = Pending then Completed else Pending)\<rparr>"

text \<open>\<open>const [memId, idxStr] = id.split('_'); const idx = parseInt(idxStr, 10)\<close>.\<close>

definition parseKey :: "string \<Rightarrow> string \<times> int option" where
  "parseKey ident =
     (case splitOn CHR ''_'' ident of
        [] \<Rightarrow> ([], None)
      | memId' # rest \<Rightarrow> (memId', parseIntOpt (case rest of [] \<Rightarrow> None | idxStr # _ \<Rightarrow> Some idxStr)))"

definition completeWith ::
  "(status option \<Rightarrow> status option) \<Rightarrow> string \<Rightarrow> bool \<Rightarrow> App \<Rightarrow> App" where
  "completeWith tog ident isMemoryItem s =
     (if isMemoryItem then
        (let memId' = fst (parseKey ident); idx = snd (parseKey ident)
         in s\<lparr>memories :=
                map (\<lambda>mem. if memId mem = memId'
                            then mem\<lparr>structuredContent := toggleItemAt tog idx (structuredContent mem)\<rparr>
                            else mem)
                    (memories s)\<rparr>)
      else s\<lparr>tasks := map (\<lambda>t. if taskId t = ident then toggleTask t else t) (tasks s)\<rparr>)"

definition handleTaskComplete :: "string \<Rightarrow> bool \<Rightarrow> App \<Rightarrow> App" where
  "handleTaskComplete = completeWith toggleStatus"

text \<open>
  The second copy of the handler, lines 1061-1088, differs in one place: it reads
  \<open>newContent[idx].status || 'pending'\<close> before toggling.
\<close>

definition toggleStatusDefaulting :: "status option \<Rightarrow> status option" where
  "toggleStatusDefaulting st =
     (let currentStatus = (case st of None \<Rightarrow> Pending | Some x \<Rightarrow> x)
      in if currentStatus = Pending then Some Completed else Some Pending)"

definition handleTaskComplete2 :: "string \<Rightarrow> bool \<Rightarrow> App \<Rightarrow> App" where
  "handleTaskComplete2 = completeWith toggleStatusDefaulting"

text \<open>
  \<open>handleDeleteMemoryItem\<close>, lines 366-374: \<open>filter((_, idx) => idx !== itemIndex)\<close> on
  the Memory with the given id, then a second filter over the whole collection.
\<close>

definition removeAt :: "nat \<Rightarrow> 'a list \<Rightarrow> 'a list" where
  "removeAt itemIndex xs = map snd (filter (\<lambda>(idx, _). idx \<noteq> itemIndex) (enumerate 0 xs))"

definition handleDeleteMemoryItem :: "string \<Rightarrow> nat \<Rightarrow> App \<Rightarrow> App" where
  "handleDeleteMemoryItem memoryId itemIndex s =
     (let updated =
            map (\<lambda>mem. if memId mem = memoryId
                        then mem\<lparr>structuredContent := removeAt itemIndex (structuredContent mem)\<rparr>
                        else mem)
                (memories s)
      in s\<lparr>memories :=
             filter (\<lambda>mem. length (structuredContent mem) > 0
                           \<or> originalText mem = ''Manual Project Creation'')
                    updated\<rparr>)"

text \<open>
  \<open>handleUpdateMemoryItem\<close>, lines 376-385. Assigning past the end of an array makes a
  sparse array, which is not a list of items: the result is \<open>None\<close> then.
\<close>

definition handleUpdateMemoryItem :: "string \<Rightarrow> nat \<Rightarrow> StructuredItem \<Rightarrow> App \<Rightarrow> App option" where
  "handleUpdateMemoryItem memoryId itemIndex updatedItem s =
     (if list_ex (\<lambda>mem. memId mem = memoryId \<and> length (structuredContent mem) < itemIndex) (memories s)
      then None
      else Some (s\<lparr>memories :=
                    map (\<lambda>mem. if memId mem = memoryId
                                then mem\<lparr>structuredContent :=
                                          (if itemIndex < length (structuredContent mem)
                                           then (structuredContent mem)[itemIndex := updatedItem]
                                           else structuredContent mem @ [updatedItem])\<rparr>
                                else mem)
                        (memories s)\<rparr>))"

section \<open>Categories and projects\<close>

definition handleAddCategory :: "App \<Rightarrow> App" where
  "handleAddCategory s =
     (if \<not> truthy (trim (tempCategoryName s)) then s
      else if trim (tempCategoryName s) \<in> set (availableCategories s) then s
      else s\<lparr>availableCategories := availableCategories s @ [trim (tempCategoryName s)],
             tempCategoryName := []\<rparr>)"

definition handleDeleteCategory :: "string \<Rightarrow> App \<Rightarrow> App" where
  "handleDeleteCategory cat s =
     (if length (availableCategories s) \<le> 1 then s\<lparr>notices := notices s @ [KeepOneCategory]\<rparr>
      else s\<lparr>availableCategories := filter (\<lambda>c. c \<noteq> cat) (availableCategories s),
             selectedRootCategory :=
               (if selectedRootCategory s = Some (Named cat) then Some (Named ''All'')
                else selectedRootCategory s),
             managerSelectedCategory :=
               (if managerSelectedCategory s = Some cat then None else managerSelectedCategory s)\<rparr>)"

definition handleUpdateCategoryName :: "string \<Rightarrow> string \<Rightarrow> App \<Rightarrow> App" where
  "handleUpdateCategoryName oldName newName s =
     (if \<not> truthy (trim newName) \<or> newName = oldName then s
      else s\<lparr>availableCategories := map (\<lambda>c. if c = oldName then newName else c) (availableCategories s),
             memories := map (\<lambda>m. if rootCategory m = Some (Named oldName)
                                   then m\<lparr>rootCategory := Some (Named newName)\<rparr> else m)
                             (memories s)\<rparr>)"

text \<open>
  \<open>handleAddProject\<close>, lines 403-417; \<open>now\<close> is the \<open>Date\<close> of \<open>Date.now()\<close>. The
  argument is \<open>None\<close> for the call without argument from the modal.
\<close>

definition placeholderMemory :: "string \<Rightarrow> string \<Rightarrow> JsDate \<Rightarrow> Memory" where
  "placeholderMemory cat trimmedName now =
     \<lparr>memId = showInt (getTime now), originalText = ''Manual Project Creation'',
      rootCategory = Some (Named cat), project = trimmedName, subProject = Some ''General'',
      memType = Note,
      structuredContent =
        [\<lparr>title = ''Project Initialized'', category = ''System'',
          description = ''Start adding memories.'', location = None,
          rating = None, actionItem = None,
          targetDate = Some (formatDate now), status = Some Pending\<rparr>],
      createdAt = getTime now, tags = [], attachedImage = None\<rparr>"

definition handleAddProject :: "string option \<Rightarrow> JsDate \<Rightarrow> App \<Rightarrow> App" where
  "handleAddProject targetCategory now s =
     (let cat = orElse targetCategory (newProjectCategory s);
          name = (if truthyOpt targetCategory then tempProjectName s else newProjectName s);
          trimmedName = trim name
      in if \<not> truthy trimmedName then s
         else if \<not> isProjectNameGloballyUnique (memories s) trimmedName
         then s\<lparr>notices := notices s @ [ProjectExists]\<rparr>
         else
           (let newMem = placeholderMemory cat trimmedName now;
                s1 = s\<lparr>memories := newMem # memories s,
                        expandedProjects := insert trimmedName (expandedProjects s)\<rparr>
            in if \<not> truthyOpt targetCategory
               then s1\<lparr>newProjectName := [], showAddProjectModal := False,
                       selectedRootCategory := Some (Named cat)\<rparr>
               else s1\<lparr>tempProjectName := []\<rparr>))"

definition handleDeleteProject :: "string \<Rightarrow> App \<Rightarrow> App" where
  "handleDeleteProject projectName s =
     s\<lparr>memories := filter (\<lambda>m. project m \<noteq> projectName) (memories s)\<rparr>"

definition handleUpdateProjectName :: "string \<Rightarrow> string \<Rightarrow> App \<Rightarrow> App" where
  "handleUpdateProjectName oldName newName s =
     (if \<not> truthy (trim newName) \<or> newName = oldName then s
      else if \<not> isProjectNameGloballyUnique (memories s) (trim newName)
      then s\<lparr>notices := notices s @ [ProjectExists]\<rparr>
      else s\<lparr>memories := map (\<lambda>m. if project m = oldName then m\<lparr>project := trim newName\<rparr> else m)
                             (memories s)\<rparr>)"

section \<open>Backward-delete of a tag (handleKeyDown)\<close>

text \<open>
  \<open>Array.from(new Set(xs))\<close> keeps the first occurrence of every element, in order.
  \<open>allTags.sort((a, b) => b.length - a.length)\<close> is a stable sort, longest first.
\<close>

definition uniq :: "'a list \<Rightarrow> 'a list" where
  "uniq xs = rev (remdups (rev xs))"

definition sortByLengthDesc :: "string list \<Rightarrow> string list" where
  "sortByLengthDesc ts = sort_key (\<lambda>t. - int (length t)) ts"

definition allTagsForDelete :: "App \<Rightarrow> string list" where
  "allTagsForDelete s =
     (let existingProjects = filter truthy (uniq (map project (memories s)))
      in sortByLengthDesc (availableCategories s @ existingProjects))"

datatype key = Backspace | OtherKey

text \<open>
  Lines 232-255. The arguments are \<open>e.key\<close>, \<open>selectionStart\<close> and \<open>selectionEnd\<close>; the
  result is the new state, whether \<open>preventDefault\<close> was called, and the position given
  to \<open>setSelectionRange\<close> when it is called. \<open>if (matchedTag)\<close> fails for an empty tag.
\<close>

definition handleKeyDown :: "key \<Rightarrow> nat \<Rightarrow> nat \<Rightarrow> App \<Rightarrow> App \<times> bool \<times> nat option" where
  "handleKeyDown k selectionStart selectionEnd s =
     (if k = Backspace then
        (let cursor = selectionStart
         in if cursor \<noteq> selectionEnd then (s, False, None)
            else
              (let textBefore = take cursor (inputText s);
                   matchedTag = find (\<lambda>tag. suffix (CHR ''/'' # tag) textBefore) (allTagsForDelete s)
               in case matchedTag of
                    None \<Rightarrow> (s, False, None)
                  | Some tag \<Rightarrow>
                      if truthy tag then
                        (let tagLength = length tag + 1;
                             newText = take (cursor - tagLength) (inputText s) @ drop cursor (inputText s);
                             newCursorPos = cursor - tagLength
                         in (s\<lparr>inputText := newText\<rparr>, True, Some newCursorPos))
                      else (s, False, None)))
      else (s, False, None))"

section \<open>Agenda (renderTodayView)\<close>

text \<open>
  An entry of \<open>allItems\<close>: a Task spread with \<open>isMemory: false, tag: 'Coach Plan'\<close>, or an
  item of a Memory under the key \<open>memoryId_index\<close>.
\<close>

record AgendaItem =
  itemId :: string
  itemTitle :: string
  itemStatus :: status
  isMemory :: bool
  itemTag :: "category option"
  itemDay :: "int option"
  itemFeedback :: "string option"

text \<open>\<open>Math.ceil(a / b)\<close> for integers \<open>a\<close> and positive \<open>b\<close>.\<close>

definition ceilDiv :: "int \<Rightarrow> int \<Rightarrow> int" where
  "ceilDiv a b = - ((- a) div b)"

text \<open>
  Lines 515-526. \<open>today\<close> is \<open>new Date()\<close> after \<open>setHours(0,0,0,0)\<close>, local midnight of
  the day of rendering; \<open>selectedDate\<close> is the state variable, which starts as
  \<open>new Date()\<close> at mount and is set to a local midnight by the calendar buttons.
\<close>

definition planDayNumber :: "JsDate \<Rightarrow> JsDate \<Rightarrow> int" where
  "planDayNumber today selectedDate =
     (let diffTime = getTime selectedDate - getTime today;
          diffDays = ceilDiv diffTime (1000 * 60 * 60 * 24)
      in diffDays + 1)"

definition standardTasks :: "JsDate \<Rightarrow> JsDate \<Rightarrow> Task list \<Rightarrow> Task list" where
  "standardTasks today selectedDate ts = filter (\<lambda>t. day t = planDayNumber today selectedDate) ts"

definition memoryTasks :: "string \<Rightarrow> Memory list \<Rightarrow> AgendaItem list" where
  "memoryTasks formattedSelectedDate mems =
     concat (map (\<lambda>mem.
        map (\<lambda>(idx, item).
               \<lparr>itemId = memId mem @ ''_'' @ showNat idx, itemTitle = title item,
                itemStatus = (case status item of None \<Rightarrow> Pending | Some st \<Rightarrow> st),
                isMemory = True,
                itemTag = (if project mem = ''General'' then rootCategory mem
                           else Some (Named (project mem))),
                itemDay = None, itemFeedback = None\<rparr>)
            (filter (\<lambda>(idx, item). targetDate item = Some formattedSelectedDate)
                    (enumerate 0 (structuredContent mem))))
        mems)"

definition allItems :: "JsDate \<Rightarrow> JsDate \<Rightarrow> Task list \<Rightarrow> Memory list \<Rightarrow> AgendaItem list" where
  "allItems today selectedDate ts mems =
     map (\<lambda>t. \<lparr>itemId = taskId t, itemTitle = taskTitle t, itemStatus = taskStatus t,
               isMemory = False, itemTag = Some (Named ''Coach Plan''), itemDay = Some (day t),
               itemFeedback = feedback t\<rparr>)
         (standardTasks today selectedDate ts)
     @ memoryTasks (formatDate selectedDate) mems"

section \<open>Memory browser (renderMemoryView)\<close>

text \<open>
  \<open>groupedData\<close> is a plain object of plain objects, keyed by project and by
  sub-project: association lists in insertion order again, meant for the names that do
  not meet what is said of the keys of \<open>hierarchy\<close> above.
\<close>

type_synonym grouped = "(string \<times> (string \<times> Memory list) list) list"

definition groupMemory :: "grouped \<Rightarrow> Memory \<Rightarrow> grouped" where
  "groupMemory groupedData memory =
     (let proj = (if truthy (project memory) then project memory else ''General'');
          sub = orElse (subProject memory) ''General'';
          subs = (case map_of groupedData proj of None \<Rightarrow> [] | Some x \<Rightarrow> x);
          mems = (case map_of subs sub of None \<Rightarrow> [] | Some x \<Rightarrow> x)
      in AList.update proj (AList.update sub (mems @ [memory]) subs) groupedData)"

definition filteredMemories :: "App \<Rightarrow> Memory list" where
  "filteredMemories s =
     (if selectedRootCategory s = Some (Named ''All'') then memories s
      else filter (\<lambda>m. strictEq (if truthyCat (rootCategory m) then rootCategory m
                                 else Some (Named ''Inspiration''))
                                (selectedRootCategory s))
                  (memories s))"

definition groupedData :: "App \<Rightarrow> grouped" where
  "groupedData s = foldl groupMemory [] (filteredMemories s)"

text \<open>
  A rendered \<open>MemoryCard\<close>: the item, its display date
  \<open>item.targetDate || formatDate(mem.createdAt)\<close>, the image, and the \<open>(memoryId, idx)\<close> that
  its delete and update buttons pass on. \<open>newDate\<close> is the platform's \<open>new Date(ts)\<close>.
\<close>

record Card =
  cardItem :: StructuredItem
  displayDate :: string
  cardImage :: "string option"
  cardMemoryId :: string
  cardIdx :: nat

definition cardsOf :: "(int \<Rightarrow> JsDate) \<Rightarrow> Memory \<Rightarrow> Card list" where
  "cardsOf newDate mem =
     map (\<lambda>(idx, item).
            \<lparr>cardItem = item,
             displayDate = orElse (targetDate item) (formatDate (newDate (createdAt mem))),
             cardImage = attachedImage mem, cardMemoryId = memId mem, cardIdx = idx\<rparr>)
         (enumerate 0 (structuredContent mem))"

record SubFolder =
  subProjectName :: string
  showHeader :: bool
  subCards :: "Card list"

record Folder =
  projectName :: string
  isExpanded :: bool
  memoryCount :: nat
  subFolders :: "SubFolder list"

record MemoryView =
  generalCards :: "Card list"
  folders :: "Folder list"

text \<open>
  Lines 559-579, the first copy of the view: the cards of a sub-project are the cards of
  its Memories, one Memory after the other. No sorting takes place.
\<close>

definition renderFolders :: "(Card list \<Rightarrow> Card list) \<Rightarrow> (int \<Rightarrow> JsDate) \<Rightarrow> App \<Rightarrow> Folder list" where
  "renderFolders arrange newDate s =
     map (\<lambda>(name, subProjects).
            \<lparr>projectName = name, isExpanded = (name \<in> expandedProjects s),
             memoryCount = foldl (\<lambda>acc curr. acc + length curr) 0 (map snd subProjects),
             subFolders =
               map (\<lambda>(subName, mems).
                      \<lparr>subProjectName = subName,
                       showHeader = (subName \<noteq> ''General'' \<or> length subProjects > 1),
                       subCards = arrange (concat (map (cardsOf newDate) mems))\<rparr>)
                   subProjects\<rparr>)
         (filter (\<lambda>(p, _). p \<noteq> ''General'') (groupedData s))"

definition renderGeneral :: "(int \<Rightarrow> JsDate) \<Rightarrow> App \<Rightarrow> Card list" where
  "renderGeneral newDate s =
     (case map_of (groupedData s) ''General'' of
        None \<Rightarrow> []
      | Some subs \<Rightarrow> concat (map (\<lambda>(_, mems). concat (map (cardsOf newDate) mems)) subs))"

definition renderMemoryView :: "(int \<Rightarrow> JsDate) \<Rightarrow> App \<Rightarrow> MemoryView" where
  "renderMemoryView newDate s =
     \<lparr>generalCards = renderGeneral newDate s, folders = renderFolders (\<lambda>cards. cards) newDate s\<rparr>"

text \<open>
  Lines 1814-1834, the second copy: the same, except that the cards of every sub-project
  are sorted with \<open>flatItems.sort((a, b) => a.displayDate.localeCompare(b.displayDate))\<close>.
  \<open>localeCompare\<close> is the platform's and is an argument here; the sort is stable.
\<close>

fun insertBy :: "('a \<Rightarrow> 'a \<Rightarrow> int) \<Rightarrow> 'a \<Rightarrow> 'a list \<Rightarrow> 'a list" where
  "insertBy cmp x [] = [x]"
| "insertBy cmp x (y # ys) = (if cmp x y \<le> 0 then x # y # ys else y # insertBy cmp x ys)"

definition sortBy :: "('a \<Rightarrow> 'a \<Rightarrow> int) \<Rightarrow> 'a list \<Rightarrow> 'a list" where
  "sortBy cmp xs = foldr (insertBy cmp) xs []"

definition renderMemoryView2 :: "(string \<Rightarrow> string \<Rightarrow> int) \<Rightarrow> (int \<Rightarrow> JsDate) \<Rightarrow> App \<Rightarrow> MemoryView" where
  "renderMemoryView2 localeCompare newDate s =
     \<lparr>generalCards = renderGeneral newDate s,
      folders = renderFolders (sortBy (\<lambda>a b. localeCompare (displayDate a) (displayDate b))) newDate s\<rparr>"

section \<open>Classification gateway (services/geminiService.ts)\<close>

text \<open>
  What the SDK call \<open>generateContent\<close> gives back: it throws, or it returns a response
  whose \<open>text\<close> may be missing. \<open>JSON.parse\<close> is the platform's and is an argument:
  it yields \<open>None\<close> where it throws. The cast \<open>as ProcessingResult\<close> checks nothing, so a
  parsed value is taken to have the declared shape.
\<close>

datatype exn = NetworkError | NoResponse | ParseError

datatype reply = Throws | Response "string option"

text \<open>\<open>cleanJson\<close>: trims, then strips a leading fence with the white space after it and
  a trailing fence with the white space before it.\<close>

definition stripTrailingFence :: "string \<Rightarrow> string" where
  "stripTrailingFence s =
     (if suffix ''```'' s then rev (dropWhile isWhiteSpace (drop 3 (rev s))) else s)"

definition cleanJson :: "string \<Rightarrow> string" where
  "cleanJson text =
     (if \<not> truthy text then ''{}''
      else
        (let clean = trim text
         in if prefix ''```json'' clean
            then stripTrailingFence (dropWhile isWhiteSpace (drop 7 clean))
            else if prefix ''```'' clean
            then stripTrailingFence (dropWhile isWhiteSpace (drop 3 clean))
            else clean))"

definition processInput :: "(string \<Rightarrow> ProcessingResult option) \<Rightarrow> reply \<Rightarrow> exn + ProcessingResult" where
  "processInput jsonParse r =
     (case r of
        Throws \<Rightarrow> Inl NetworkError
      | Response jsonText \<Rightarrow>
          if \<not> truthyOpt jsonText then Inl NoResponse
          else (case jsonParse (cleanJson (the jsonText)) of
                  None \<Rightarrow> Inl ParseError
                | Some result \<Rightarrow> Inr result))"

definition generatePlan :: "(string \<Rightarrow> PlanningResult option) \<Rightarrow> reply \<Rightarrow> exn + PlanningResult" where
  "generatePlan jsonParse r =
     (case r of
        Throws \<Rightarrow> Inl NetworkError
      | Response jsonText \<Rightarrow>
          if \<not> truthyOpt jsonText then Inl NoResponse
          else (case jsonParse (cleanJson (the jsonText)) of
                  None \<Rightarrow> Inl ParseError
                | Some result \<Rightarrow> Inr result))"

section \<open>Ingestion (handleProcessInput)\<close>

text \<open>
  The handler is asynchronous: it runs up to its \<open>await\<close>, and its continuation runs
  when the gateway call settles. What the continuation reads from the closure of the
  render in which the handler was called is kept in a request: the input text, the image,
  the hierarchy computed before the call, the category list, and which of the two calls
  was made. The functional updates \<open>setMemories(prev => ...)\<close>, \<open>setTasks(prev => ...)\<close>
  and \<open>setExpandedProjects(prev => ...)\<close> apply to the state at the time of the
  continuation.
\<close>

record Request =
  reqText :: string
  reqImage :: "string option"
  reqHierarchy :: hierarchy
  reqCategories :: "string list"
  reqIsPlan :: bool

definition isGoal :: "string \<Rightarrow> bool" where
  "isGoal t \<longleftrightarrow>
     sublist ''want to'' (toLowerCase t) \<or> sublist ''plan to'' (toLowerCase t)
       \<or> sublist ''days'' (toLowerCase t)"

definition handleProcessInput_begin :: "App \<Rightarrow> App \<times> Request option" where
  "handleProcessInput_begin s =
     (if (\<not> truthy (trim (inputText s)) \<and> \<not> truthyOpt (selectedImage s)) \<or> isCompressingImage s
      then (s, None)
      else (s\<lparr>isProcessing := True\<rparr>,
            Some \<lparr>reqText = inputText s, reqImage = selectedImage s,
                  reqHierarchy = getProjectHierarchy (availableCategories s) (memories s),
                  reqCategories = availableCategories s,
                  reqIsPlan = (isGoal (inputText s) \<and> length (inputText s) < 100
                               \<and> \<not> sublist ''/'' (inputText s) \<and> \<not> truthyOpt (selectedImage s))\<rparr>))"

definition newTasks :: "int \<Rightarrow> PlanningResult \<Rightarrow> Task list" where
  "newTasks now plan =
     map (\<lambda>(idx, (d, t)).
            \<lparr>taskId = showInt now @ showNat idx, taskTitle = ''Day '' @ showInt d @ '': '' @ t,
             day = d, taskStatus = Pending, feedback = None\<rparr>)
         (enumerate 0 (planTasks plan))"

definition newMemory :: "Request \<Rightarrow> ProcessingResult \<Rightarrow> int \<Rightarrow> Memory" where
  "newMemory req result now =
     (let p2c = projectToCategoryMap (reqHierarchy req);
          final = reconcile (reqCategories req) p2c
                    (Some (Named (resRootCategory result)), resProject result);
          initializedItems = map (\<lambda>item. item\<lparr>status := Some Pending\<rparr>) (resItems result)
      in \<lparr>memId = showInt now, originalText = reqText req, rootCategory = fst final,
          project = snd final, subProject = Some (resSubProject result), memType = resType result,
          structuredContent = initializedItems, createdAt = now, tags = resTags result,
          attachedImage = (if truthyOpt (reqImage req) then reqImage req else None)\<rparr>)"

text \<open>The \<open>try\<close> block after the \<open>await\<close>, given how the call settled.\<close>

definition tryBlock ::
  "Request \<Rightarrow> exn + PlanningResult \<Rightarrow> exn + ProcessingResult \<Rightarrow> int \<Rightarrow> App \<Rightarrow> exn + App" where
  "tryBlock req planOutcome classOutcome now s =
     (if reqIsPlan req then
        (case planOutcome of
           Inl e \<Rightarrow> Inl e
         | Inr plan \<Rightarrow>
             Inr (s\<lparr>tasks := tasks s @ newTasks now plan, inputText := [], currentTab := TODAY\<rparr>))
      else
        (case classOutcome of
           Inl e \<Rightarrow> Inl e
         | Inr result \<Rightarrow>
             (let m = newMemory req result now
              in Inr (s\<lparr>memories := m # memories s, inputText := [], selectedImage := None,
                        expandedProjects :=
                          (if project m \<noteq> ''General'' then insert (project m) (expandedProjects s)
                           else expandedProjects s),
                        selectedRootCategory := rootCategory m, currentTab := MEMORY\<rparr>))))"

text \<open>\<open>catch (error) { console.error(error); alert(...) }\<close> and
  \<open>finally { setIsProcessing(false) }\<close>.\<close>

definition catchBlock :: "App \<Rightarrow> exn + App \<Rightarrow> exn + App" where
  "catchBlock s r = (case r of Inl e \<Rightarrow> Inr (s\<lparr>notices := notices s @ [ProcessingFailed]\<rparr>) | Inr s' \<Rightarrow> Inr s')"

definition finallyBlock :: "exn + App \<Rightarrow> exn + App" where
  "finallyBlock r = (case r of Inl e \<Rightarrow> Inl e | Inr s' \<Rightarrow> Inr (s'\<lparr>isProcessing := False\<rparr>))"

definition handleProcessInput_resume ::
  "Request \<Rightarrow> exn + PlanningResult \<Rightarrow> exn + ProcessingResult \<Rightarrow> int \<Rightarrow> App \<Rightarrow> exn + App" where
  "handleProcessInput_resume req planOutcome classOutcome now s =
     finallyBlock (catchBlock s (tryBlock req planOutcome classOutcome now s))"

text \<open>The handler when nothing else happens between the call and its settling.\<close>

definition handleProcessInput ::
  "exn + PlanningResult \<Rightarrow> exn + ProcessingResult \<Rightarrow> int \<Rightarrow> App \<Rightarrow> exn + App" where
  "handleProcessInput planOutcome classOutcome now s =
     (case handleProcessInput_begin s of
        (s1, None) \<Rightarrow> Inr s1
      | (s1, Some req) \<Rightarrow> handleProcessInput_resume req planOutcome classOutcome now s1)"

section \<open>Runs of the application\<close>

text \<open>
  The state at first start with nothing stored (lines 118-170), and the state after the
  mount effect of the second copy has put its sample data in (lines 784-823), created at
  time \<open>now\<close>.
\<close>

definition initialApp :: App where
  "initialApp =
     \<lparr>memories = [], tasks = [],
      availableCategories = [''Travel'', ''Learning'', ''Inspiration'', ''Work'', ''Life''],
      inputText = [], selectedImage = None, isCompressingImage = False, isProcessing = False,
      currentTab = TODAY, selectedRootCategory = Some (Named ''All''), expandedProjects = {},
      managerSelectedCategory = None, tempCategoryName = [], tempProjectName = [],
      newProjectName = [], newProjectCategory = ''Travel'', showAddProjectModal = False,
      notices = []\<rparr>"

definition sampleMemories :: "int \<Rightarrow> Memory list" where
  "sampleMemories now =
     [\<lparr>memId = ''mock1'', originalText = ''Mock'', rootCategory = Some (Named ''Travel''),
       project = ''Korea Trip'', subProject = Some ''Seoul'', memType = Note,
       structuredContent =
         [\<lparr>title = ''Gyeongbokgung Palace'', category = ''Sightseeing'',
           description = ''Wear Hanbok for free entry.'', location = Some ''Seoul'',
           rating = Some 5, actionItem = None, targetDate = Some ''2025.10.15'',
           status = Some Pending\<rparr>],
       createdAt = now, tags = [], attachedImage = None\<rparr>,
      \<lparr>memId = ''mock2'', originalText = ''Mock'', rootCategory = Some (Named ''Learning''),
       project = ''General'', subProject = Some ''General'', memType = Note,
       structuredContent =
         [\<lparr>title = ''Learn to rest'', category = ''Health'',
           description = ''Taking breaks is productive.'', location = None, rating = None,
           actionItem = None, targetDate = None, status = Some Pending\<rparr>],
       createdAt = now, tags = [], attachedImage = None\<rparr>]"

definition sampleTasks :: "Task list" where
  "sampleTasks =
     [\<lparr>taskId = ''1'', taskTitle = ''Day 1: Check flights'', day = 1, taskStatus = Pending,
       feedback = None\<rparr>,
      \<lparr>taskId = ''2'', taskTitle = ''Day 1: Pack luggage'', day = 1, taskStatus = Completed,
       feedback = None\<rparr>]"

definition initialAppSample :: "int \<Rightarrow> App" where
  "initialAppSample now = initialApp\<lparr>memories := sampleMemories now, tasks := sampleTasks\<rparr>"

text \<open>
  The first copy keeps the three collections in \<open>localStorage\<close>: an effect writes
  \<open>JSON.stringify\<close> of each after every change, and \<open>loadFromStorage\<close> reads it back
  with \<open>JSON.parse\<close> when the component is mounted. Strings, numbers, arrays and absent
  fields come back as they were. A function is not written, so a root category that is
  one comes back \<open>undefined\<close>; the prototype object is written as \<open>{}\<close> and comes back
  as an empty object. \<open>restart\<close> is the state of the component mounted again: the
  collections as stored, everything else as at the first start.
\<close>

definition stored :: "Memory \<Rightarrow> Memory" where
  "stored m =
     m\<lparr>rootCategory :=
          (case rootCategory m of
             Some (Member k) \<Rightarrow> if k = ''__proto__'' then Some Parsed else None
           | c \<Rightarrow> c)\<rparr>"

definition restart :: "App \<Rightarrow> App" where
  "restart s =
     initialApp\<lparr>memories := map stored (memories s), tasks := tasks s,
                availableCategories := availableCategories s\<rparr>"

text \<open>
  What the user and the gateway can do. Each event is one call of a handler or of a state
  setter from the rendered controls; the gateway call of \<open>handleProcessInput\<close> is two
  events, \<open>Submit\<close> up to the \<open>await\<close> and \<open>Settle\<close> for the continuation. A
  configuration is the state with the request in flight, if any. \<open>Restart\<close> is closing
  the page and opening it again, which drops a request in flight.
  \<open>handleUpdateCategoryName\<close> is defined in both copies and called in neither, so no
  event stands for it.
\<close>

datatype event =
    TypeText string
  | AttachImage "string option"
  | Compressing bool
  | Submit
  | Settle "exn + PlanningResult" "exn + ProcessingResult" int
  | Complete string bool
  | DeleteItem string nat
  | UpdateItem string nat StructuredItem
  | TypeCategoryName string
  | AddCategory
  | DeleteCategory string
  | TypeNewProjectName string
  | TypeTempProjectName string
  | PickProjectCategory string
  | PickManagerCategory "string option"
  | AddProject bool JsDate
  | DeleteProject string
  | RenameProject string string
  | PickRootCategory string
  | SwitchTab AppTab
  | ShowAddProjectModal bool
  | ToggleFolder string
  | Restart

type_synonym config = "App \<times> Request option"

text \<open>The projects listed in the structure manager for the selected category:
  \<open>getProjectHierarchy()[managerSelectedCategory]?.map(...)\<close>, shown when the selection is
  truthy. Their rename field and delete button are the only callers of
  \<open>handleUpdateProjectName\<close> and \<open>handleDeleteProject\<close>.\<close>

definition managerProjects :: "App \<Rightarrow> string list" where
  "managerProjects s =
     (case managerSelectedCategory s of
        None \<Rightarrow> []
      | Some c \<Rightarrow>
          if truthy c
          then (case map_of (getProjectHierarchy (availableCategories s) (memories s)) c of
                  None \<Rightarrow> [] | Some ps \<Rightarrow> ps)
          else [])"

text \<open>
  When a control exists: the process button is disabled while \<open>isProcessing\<close>; category
  buttons exist for the categories of the list, and the filter of the memory view has
  one for \<open>'All'\<close> as well; the manager's add button exists when a category is selected
  there (\<open>AddProject True\<close>; \<open>AddProject False\<close> is the modal's).
\<close>

fun enabled :: "event \<Rightarrow> config \<Rightarrow> bool" where
  "enabled Submit (s, p) \<longleftrightarrow> \<not> isProcessing s \<and> p = None"
| "enabled (Settle po co now) (s, p) \<longleftrightarrow> p \<noteq> None"
| "enabled (UpdateItem mid idx item) (s, p) \<longleftrightarrow> handleUpdateMemoryItem mid idx item s \<noteq> None"
| "enabled (DeleteCategory cat) (s, p) \<longleftrightarrow> cat \<in> set (availableCategories s)"
| "enabled (PickProjectCategory cat) (s, p) \<longleftrightarrow> cat \<in> set (availableCategories s)"
| "enabled (PickManagerCategory c) (s, p) \<longleftrightarrow> (case c of None \<Rightarrow> True | Some cat \<Rightarrow> cat \<in> set (availableCategories s))"
| "enabled (PickRootCategory c) (s, p) \<longleftrightarrow> (c = ''All'' \<or> c \<in> set (availableCategories s))"
| "enabled (AddProject fromManager now) (s, p) \<longleftrightarrow> (fromManager \<longrightarrow> truthyOpt (managerSelectedCategory s))"
| "enabled (DeleteProject proj) (s, p) \<longleftrightarrow> proj \<in> set (managerProjects s)"
| "enabled (RenameProject proj newName) (s, p) \<longleftrightarrow> proj \<in> set (managerProjects s)"
| "enabled _ (s, p) \<longleftrightarrow> True"

fun step :: "event \<Rightarrow> config \<Rightarrow> config" where
  "step (TypeText t) (s, p) = (s\<lparr>inputText := t\<rparr>, p)"
| "step (AttachImage img) (s, p) = (s\<lparr>selectedImage := img\<rparr>, p)"
| "step (Compressing b) (s, p) = (s\<lparr>isCompressingImage := b\<rparr>, p)"
| "step Submit (s, p) = handleProcessInput_begin s"
| "step (Settle po co now) (s, p) =
     (case p of
        None \<Rightarrow> (s, None)
      | Some req \<Rightarrow>
          (case handleProcessInput_resume req po co now s of Inl e \<Rightarrow> (s, None) | Inr s' \<Rightarrow> (s', None)))"
| "step (Complete ident isMem) (s, p) = (handleTaskComplete ident isMem s, p)"
| "step (DeleteItem mid idx) (s, p) = (handleDeleteMemoryItem mid idx s, p)"
| "step (UpdateItem mid idx item) (s, p) =
     (case handleUpdateMemoryItem mid idx item s of None \<Rightarrow> (s, p) | Some s' \<Rightarrow> (s', p))"
| "step (TypeCategoryName t) (s, p) = (s\<lparr>tempCategoryName := t\<rparr>, p)"
| "step AddCategory (s, p) = (handleAddCategory s, p)"
| "step (DeleteCategory cat) (s, p) = (handleDeleteCategory cat s, p)"
| "step (TypeNewProjectName t) (s, p) = (s\<lparr>newProjectName := t\<rparr>, p)"
| "step (TypeTempProjectName t) (s, p) = (s\<lparr>tempProjectName := t\<rparr>, p)"
| "step (PickProjectCategory cat) (s, p) = (s\<lparr>newProjectCategory := cat\<rparr>, p)"
| "step (PickManagerCategory c) (s, p) = (s\<lparr>managerSelectedCategory := c\<rparr>, p)"
| "step (AddProject fromManager now) (s, p) =
     (handleAddProject (if fromManager then managerSelectedCategory s else None) now s, p)"
| "step (DeleteProject proj) (s, p) = (handleDeleteProject proj s, p)"
| "step (RenameProject proj newName) (s, p) = (handleUpdateProjectName proj newName s, p)"
| "step (PickRootCategory c) (s, p) = (s\<lparr>selectedRootCategory := Some (Named c)\<rparr>, p)"
| "step (SwitchTab t) (s, p) = (s\<lparr>currentTab := t\<rparr>, p)"
| "step (ShowAddProjectModal b) (s, p) = (s\<lparr>showAddProjectModal := b\<rparr>, p)"
| "step (ToggleFolder name) (s, p) =
     (s\<lparr>expandedProjects :=
          (if name \<in> expandedProjects s then expandedProjects s - {name}
           else insert name (expandedProjects s))\<rparr>, p)"
| "step Restart (s, p) = (restart s, None)"

fun run :: "event list \<Rightarrow> config \<Rightarrow> config option" where
  "run [] c = Some c"
| "run (e # es) c = (if enabled e c then run es (step e c) else None)"

text \<open>
  \<open>reachable\<close>: every configuration the events lead to, in any order; handlers run while
  a gateway call is in flight.
\<close>

inductive reachable :: "config \<Rightarrow> bool" where
  reach_start: "reachable (initialApp, None)"
| reach_sample: "reachable (initialAppSample now, None)"
| reach_step: "reachable c \<Longrightarrow> enabled e c \<Longrightarrow> reachable (step e c)"

text \<open>The categories that own a project: the root categories of the Memories with that
  project.\<close>

definition owners :: "Memory list \<Rightarrow> string \<Rightarrow> category option set" where
  "owners mems P = rootCategory ` {m \<in> set mems. project m = P}"

section \<open>The specification's wording\<close>

text \<open>
  Section 4.2 of the specification, for a non-empty category list: the reverse index
  maps a project to its owning category, from the output of the hierarchy deriver (the
  last category that lists the project, should there be several); an unknown category
  falls back to the first category of the list.
\<close>

definition specFallback :: "string list \<Rightarrow> string \<Rightarrow> string" where
  "specFallback cats c = (if c \<in> set cats then c else hd cats)"

definition specReverseIndex :: "hierarchy \<Rightarrow> (string \<rightharpoonup> string)" where
  "specReverseIndex h p =
     (case filter (\<lambda>(cat, projs). p \<in> set projs) h of
        [] \<Rightarrow> None
      | e # es \<Rightarrow> Some (fst (last (e # es))))"

definition specReconcile :: "string list \<Rightarrow> (string \<rightharpoonup> string) \<Rightarrow> string \<times> string \<Rightarrow> string \<times> string" where
  "specReconcile cats reverseIndex declared =
     (if snd declared = ''General'' then (specFallback cats (fst declared), ''General'')
      else (case reverseIndex (snd declared) of
              None \<Rightarrow> (specFallback cats (fst declared), ''General'')
            | Some owner \<Rightarrow> (owner, snd declared)))"

text \<open>
  What deleting item \<open>k\<close> of Memory \<open>memoryId\<close> does to one Memory of the collection:
  \<open>None\<close> when the Memory leaves the collection.
\<close>

definition isPlaceholder :: "Memory \<Rightarrow> bool" where
  "isPlaceholder mem \<longleftrightarrow> originalText mem = ''Manual Project Creation''"

definition deleteOutcome :: "string \<Rightarrow> nat \<Rightarrow> Memory \<Rightarrow> Memory option" where
  "deleteOutcome memoryId k mem =
     (if memId mem = memoryId \<and> k < length (structuredContent mem) then
        (if length (structuredContent mem) = 1
         then (if isPlaceholder mem then Some (mem\<lparr>structuredContent := []\<rparr>) else None)
         else Some (mem\<lparr>structuredContent :=
                          take k (structuredContent mem) @ drop (Suc k) (structuredContent mem)\<rparr>))
      else (if structuredContent mem = [] \<and> \<not> isPlaceholder mem then None else Some mem))"

text \<open>The items that a completion with the given identifier toggles.\<close>

definition addressedItems :: "string \<Rightarrow> App \<Rightarrow> StructuredItem list" where
  "addressedItems ident s =
     (case snd (parseKey ident) of
        None \<Rightarrow> []
      | Some i \<Rightarrow>
          concat (map (\<lambda>mem. if memId mem = fst (parseKey ident) \<and> 0 \<le> i
                                  \<and> nat i < length (structuredContent mem)
                               then [structuredContent mem ! nat i] else [])
                      (memories s)))"

text \<open>A collection with a Memory that has no items and is not a placeholder, as an
  ingestion whose result has an empty \<open>items\<close> list leaves it.\<close>

definition draftNote :: Memory where
  "draftNote =
     \<lparr>memId = ''1700000000001'', originalText = ''two things'', rootCategory = Some (Named ''Life''),
      project = ''General'', subProject = Some ''General'', memType = Note,
      structuredContent =
        [\<lparr>title = ''Buy milk'', category = ''Shopping'', description = ''Two litres'',
          location = None, rating = None, actionItem = None, targetDate = None,
          status = Some Pending\<rparr>,
         \<lparr>title = ''Call home'', category = ''Family'', description = ''On Sunday'',
          location = None, rating = None, actionItem = None, targetDate = None,
          status = Some Pending\<rparr>],
      createdAt = 1700000000001, tags = [], attachedImage = None\<rparr>"

definition emptyNote :: Memory where
  "emptyNote =
     \<lparr>memId = ''1700000000000'', originalText = ''a photo of a wall'', rootCategory = Some (Named ''Life''),
      project = ''General'', subProject = Some ''General'', memType = Note,
      structuredContent = [], createdAt = 1700000000000, tags = [], attachedImage = None\<rparr>"

definition twoNotes :: App where
  "twoNotes = initialApp\<lparr>memories := [draftNote, emptyNote]\<rparr>"

text \<open>The example of the specification: categories \<open>Travel\<close> and \<open>Life\<close>, the project
  \<open>Japan\<close> under \<open>Travel\<close>, and a gateway that answers \<open>Life\<close> and \<open>Japan\<close>.\<close>

definition japanMemory :: Memory where
  "japanMemory =
     \<lparr>memId = ''1700000000000'', originalText = ''Manual Project Creation'',
      rootCategory = Some (Named ''Travel''), project = ''Japan'', subProject = Some ''General'',
      memType = Note,
      structuredContent =
        [\<lparr>title = ''Project Initialized'', category = ''System'',
          description = ''Start adding memories.'', location = None, rating = None,
          actionItem = None, targetDate = Some ''2023.11.14'', status = Some Pending\<rparr>],
      createdAt = 1700000000000, tags = [], attachedImage = None\<rparr>"

definition japanApp :: App where
  "japanApp =
     initialApp\<lparr>availableCategories := [''Travel'', ''Life''], memories := [japanMemory],
                inputText := ''Tea ceremony in Kyoto''\<rparr>"

definition gatewaySaysLife :: ProcessingResult where
  "gatewaySaysLife =
     \<lparr>resRootCategory = ''Life'', resProject = ''Japan'', resSubProject = ''Kyoto'',
      resType = Note, resTags = [''tea''],
      resItems =
        [\<lparr>title = ''Tea ceremony'', category = ''Sightseeing'', description = ''Book ahead.'',
          location = Some ''Kyoto'', rating = None, actionItem = None, targetDate = None,
          status = None\<rparr>]\<rparr>"

text \<open>A state with a note typed in and not yet processed.\<close>

definition ramenDraft :: App where
  "ramenDraft = initialApp\<lparr>inputText := ''Ramen place near Shibuya station''\<rparr>"

definition ramenRequest :: Request where
  "ramenRequest =
     \<lparr>reqText = ''Ramen place near Shibuya station'', reqImage = None,
      reqHierarchy = [(''Travel'', []), (''Learning'', []), (''Inspiration'', []), (''Work'', []),
                      (''Life'', [])],
      reqCategories = [''Travel'', ''Learning'', ''Inspiration'', ''Work'', ''Life''],
      reqIsPlan = False\<rparr>"

text \<open>The known tags of the backward-delete: the categories and the projects of the
  Memories.\<close>

definition knownTags :: "App \<Rightarrow> string set" where
  "knownTags s = set (availableCategories s) \<union> project ` set (memories s)"

text \<open>The sample state with \<open>/Korea Trip\<close> typed in.\<close>

definition koreaDraft :: App where
  "koreaDraft = (initialAppSample 0)\<lparr>inputText := ''/Korea Trip''\<rparr>"

text \<open>A run in which the project \<open>Japan\<close> is deleted and created again under another
  category while a classification is in flight.\<close>

definition raceEvents :: "event list" where
  "raceEvents =
     [SwitchTab MEMORY,
      ShowAddProjectModal True,
      TypeNewProjectName ''Japan'',
      AddProject False \<lparr>getTime = 1700000000000, getFullYear = 2023, getMonth = 10, getDate = 14\<rparr>,
      SwitchTab INPUT,
      TypeText ''Tea ceremony in Kyoto'',
      Submit,
      SwitchTab MEMORY,
      PickManagerCategory None,
      PickManagerCategory (Some ''Travel''),
      DeleteProject ''Japan'',
      PickManagerCategory (Some ''Life''),
      TypeTempProjectName ''Japan'',
      AddProject True \<lparr>getTime = 1700000002000, getFullYear = 2023, getMonth = 10, getDate = 14\<rparr>,
      Settle (Inl NetworkError) (Inr gatewaySaysLife) 1700000003000]"

definition raceEnd :: config where
  "raceEnd = foldl (\<lambda>c e. step e c) (initialApp, None) raceEvents"

text \<open>
  A note about JavaScript typed in at the first start, when there is no Memory and so no
  project, and a gateway that files it under a project called \<open>constructor\<close>.
\<close>

definition constructorDraft :: App where
  "constructorDraft = initialApp\<lparr>inputText := ''A constructor sets up the new object''\<rparr>"

definition gatewaySaysConstructor :: ProcessingResult where
  "gatewaySaysConstructor =
     \<lparr>resRootCategory = ''Learning'', resProject = ''constructor'', resSubProject = ''JavaScript'',
      resType = Note, resTags = [''javascript''],
      resItems =
        [\<lparr>title = ''Constructors'', category = ''Concept'',
          description = ''A constructor sets up the new object.'', location = None, rating = None,
          actionItem = None, targetDate = None, status = None\<rparr>]\<rparr>"

text \<open>A run in which two notes are processed one after the other, and the gateway files
  both under \<open>constructor\<close>.\<close>

definition twiceEvents :: "event list" where
  "twiceEvents =
     [SwitchTab INPUT,
      TypeText ''A constructor sets up the new object'',
      Submit,
      Settle (Inl NetworkError) (Inr gatewaySaysConstructor) 1700000000500,
      SwitchTab INPUT,
      TypeText ''A constructor may call another one'',
      Submit,
      Settle (Inl NetworkError) (Inr gatewaySaysConstructor) 1700000009500]"

definition twiceEnd :: config where
  "twiceEnd = foldl (\<lambda>c e. step e c) (initialApp, None) twiceEvents"

text \<open>The root category and the project of every Memory of the state that the handler
  leaves, none if it throws.\<close>

definition storedPairs :: "exn + App \<Rightarrow> (category option \<times> string) list" where
  "storedPairs r = (case r of Inl e \<Rightarrow> [] | Inr s \<Rightarrow> map (\<lambda>m. (rootCategory m, project m)) (memories s))"

text \<open>A run that deletes all categories but \<open>Travel\<close>, and the state it ends in.\<close>

definition lastCategoryEvents :: "event list" where
  "lastCategoryEvents =
     [SwitchTab MEMORY, PickManagerCategory None, DeleteCategory ''Learning'',
      DeleteCategory ''Inspiration'', DeleteCategory ''Work'', DeleteCategory ''Life'']"

definition lastCategory :: App where
  "lastCategory = initialApp\<lparr>availableCategories := [''Travel''], currentTab := MEMORY\<rparr>"

text \<open>15 October 2025: local midnight, which is \<open>today\<close>, and ten in the morning, which is
  \<open>selectedDate\<close> when the application was opened then.\<close>

definition midnight15 :: JsDate where
  "midnight15 = \<lparr>getTime = 1760486400000, getFullYear = 2025, getMonth = 9, getDate = 15\<rparr>"

definition morning15 :: JsDate where
  "morning15 = \<lparr>getTime = 1760522400000, getFullYear = 2025, getMonth = 9, getDate = 15\<rparr>"

text \<open>
  A project with two sub-projects; the items of \<open>Seoul\<close> are stored with the later date
  first. \<open>lexCompare\<close> compares code unit by code unit, as \<open>localeCompare\<close> does on
  strings of digits and dots; \<open>epochDate\<close> stands for \<open>new Date(ts)\<close>, which is not
  consulted, since every item has a target date.
\<close>

definition seoulMemory :: Memory where
  "seoulMemory =
     \<lparr>memId = ''1700000000000'', originalText = ''Seoul plans'', rootCategory = Some (Named ''Travel''),
      project = ''Korea Trip'', subProject = Some ''Seoul'', memType = Note,
      structuredContent =
        [\<lparr>title = ''Namsan Tower'', category = ''Sightseeing'', description = ''Night view.'',
          location = Some ''Seoul'', rating = None, actionItem = None,
          targetDate = Some ''2025.12.30'', status = Some Pending\<rparr>,
         \<lparr>title = ''Gyeongbokgung Palace'', category = ''Sightseeing'',
          description = ''Wear Hanbok for free entry.'', location = Some ''Seoul'', rating = Some 5,
          actionItem = None, targetDate = Some ''2025.10.15'', status = Some Pending\<rparr>],
      createdAt = 1700000000000, tags = [], attachedImage = None\<rparr>"

definition busanMemory :: Memory where
  "busanMemory =
     \<lparr>memId = ''1700000001000'', originalText = ''Busan plans'', rootCategory = Some (Named ''Travel''),
      project = ''Korea Trip'', subProject = Some ''Busan'', memType = Note,
      structuredContent =
        [\<lparr>title = ''Haeundae Beach'', category = ''Sightseeing'', description = ''Morning walk.'',
          location = Some ''Busan'', rating = None, actionItem = None,
          targetDate = Some ''2025.11.01'', status = Some Pending\<rparr>],
      createdAt = 1700000001000, tags = [], attachedImage = None\<rparr>"

definition koreaBrowser :: App where
  "koreaBrowser =
     initialApp\<lparr>memories := [seoulMemory, busanMemory], expandedProjects := {''Korea Trip''}\<rparr>"

definition epochDate :: "int \<Rightarrow> JsDate" where
  "epochDate ts = \<lparr>getTime = ts, getFullYear = 1970, getMonth = 0, getDate = 1\<rparr>"

fun lexCompare :: "string \<Rightarrow> string \<Rightarrow> int" where
  "lexCompare [] [] = 0"
| "lexCompare [] (y # ys) = - 1"
| "lexCompare (x # xs) [] = 1"
| "lexCompare (x # xs) (y # ys) =
     (if (of_char x :: nat) < of_char y then - 1
      else if (of_char y :: nat) < of_char x then 1
      else lexCompare xs ys)"

text \<open>What a view shows: for every folder, its sub-projects with the display dates of
  their cards, in the order of rendering.\<close>

definition shownDates :: "MemoryView \<Rightarrow> (string \<times> (string \<times> string list) list) list" where
  "shownDates v =
     map (\<lambda>f. (projectName f, map (\<lambda>sf. (subProjectName sf, map displayDate (subCards sf))) (subFolders f)))
         (folders v)"

text \<open>A category that the hierarchy lists a project under is not the empty string.\<close>

definition ownersNamed :: "hierarchy \<Rightarrow> bool" where
  "ownersNamed h \<longleftrightarrow> (\<forall>(c, ps) \<in> set h. ps \<noteq> [] \<longrightarrow> c \<noteq> [])"

text \<open>The invariant: the list is not empty and holds no name twice.\<close>

definition properList :: "string list \<Rightarrow> bool" where
  "properList cats \<longleftrightarrow> cats \<noteq> [] \<and> distinct cats"

section \<open>Properties\<close>

text \<open>
  C3 (reconciliation is idempotent): with the category list and the reverse index held
  fixed, reconciling the output of a reconciliation gives that output again. It holds
  for every category list, so in particular for the non-empty ones of the claim, and for
  every dictionary \<open>p2c\<close>, whatever it answers, so in particular for the one built from
  the hierarchy, the inherited members that it answers with included.
\<close>

theorem reconcile_idempotent:
  "reconcile cats p2c (reconcile cats p2c declared) = reconcile cats p2c declared"
  by (cases cats; cases declared)
     (auto simp: reconcile_def Let_def includesOpt_def first_def truthyOpt_def truthy_def
           split: option.splits)

subsection \<open>Completion toggling\<close>

lemma toggleStatus_twice: "st \<noteq> None \<Longrightarrow> toggleStatus (toggleStatus st) = st"
  by (cases st; cases "the st") (auto simp: toggleStatus_def)

lemma toggleStatusDefaulting_twice: "st \<noteq> None \<Longrightarrow> toggleStatusDefaulting (toggleStatusDefaulting st) = st"
  by (cases st; cases "the st") (auto simp: toggleStatusDefaulting_def)

lemma toggleItemAt_twice:
  assumes tog: "\<And>st. st \<noteq> None \<Longrightarrow> tog (tog st) = st"
    and st: "\<And>i. idx = Some i \<Longrightarrow> 0 \<le> i \<Longrightarrow> nat i < length xs \<Longrightarrow> status (xs ! nat i) \<noteq> None"
  shows "toggleItemAt tog idx (toggleItemAt tog idx xs) = xs"
proof (cases idx)
  case None
  then show ?thesis by (simp add: toggleItemAt_def)
next
  case (Some i)
  show ?thesis
  proof (cases "0 \<le> i \<and> nat i < length xs")
    case True
    then have "status (xs ! nat i) \<noteq> None" using st Some by simp
    then have "tog (tog (status (xs ! nat i))) = status (xs ! nat i)" by (rule tog)
    then show ?thesis using True Some
      by (simp add: toggleItemAt_def list_update_same_conv)
  next
    case False
    then show ?thesis using Some by (auto simp: toggleItemAt_def)
  qed
qed

lemma toggleTask_twice: "toggleTask (toggleTask t) = t"
  by (cases "taskStatus t") (simp_all add: toggleTask_def)

lemma completeWith_twice:
  assumes tog: "\<And>st. st \<noteq> None \<Longrightarrow> tog (tog st) = st"
    and st: "isMemoryItem \<longrightarrow> (\<forall>item \<in> set (addressedItems ident s). status item \<noteq> None)"
  shows "completeWith tog ident isMemoryItem (completeWith tog ident isMemoryItem s) = s"
proof (cases isMemoryItem)
  case False
  have "map ((\<lambda>t. if taskId t = ident then toggleTask t else t) \<circ> (\<lambda>t. if taskId t = ident then toggleTask t else t)) (tasks s) = tasks s"
  proof (rule map_idI)
    fix t assume "t \<in> set (tasks s)"
    have "taskId (toggleTask t) = taskId t" by (simp add: toggleTask_def)
    then show "((\<lambda>t. if taskId t = ident then toggleTask t else t) \<circ> (\<lambda>t. if taskId t = ident then toggleTask t else t)) t = t"
      by (simp add: toggleTask_twice)
  qed
  then show ?thesis using False by (simp add: completeWith_def)
next
  case True
  obtain mid idx where pk: "parseKey ident = (mid, idx)" by (cases "parseKey ident")
  have each: "\<And>mem. mem \<in> set (memories s) \<Longrightarrow> memId mem = mid \<Longrightarrow>
      toggleItemAt tog idx (toggleItemAt tog idx (structuredContent mem)) = structuredContent mem"
  proof (rule toggleItemAt_twice[OF tog])
    fix mem i
    assume "mem \<in> set (memories s)" "memId mem = mid" "idx = Some i" "0 \<le> i" "nat i < length (structuredContent mem)"
    then have "structuredContent mem ! nat i \<in> set (addressedItems ident s)"
      using pk by (auto simp: addressedItems_def)
    then show "status (structuredContent mem ! nat i) \<noteq> None" using st True by blast
  qed simp
  have "map ((\<lambda>mem. if memId mem = mid then mem\<lparr>structuredContent := toggleItemAt tog idx (structuredContent mem)\<rparr> else mem)
           \<circ> (\<lambda>mem. if memId mem = mid then mem\<lparr>structuredContent := toggleItemAt tog idx (structuredContent mem)\<rparr> else mem)) (memories s) = memories s"
    by (rule map_idI) (simp add: each)
  then show ?thesis using True pk by (simp add: completeWith_def Let_def)
qed

text \<open>
  C10 (completion toggling is an involution): when every item that the identifier
  addresses has a status (\<open>'pending'\<close> or \<open>'completed'\<close>), two calls of
  \<open>handleTaskComplete\<close> with the same identifier and kind give the state back, the
  Memories and the Tasks with it. A Task always has a status, so nothing is asked when the
  identifier is a Task's. Both copies of the handler are covered.
\<close>

theorem handleTaskComplete_involution:
  assumes "isMemoryItem \<longrightarrow> (\<forall>item \<in> set (addressedItems ident s). status item \<noteq> None)"
  shows "handleTaskComplete ident isMemoryItem (handleTaskComplete ident isMemoryItem s) = s
       \<and> handleTaskComplete2 ident isMemoryItem (handleTaskComplete2 ident isMemoryItem s) = s"
  unfolding handleTaskComplete_def handleTaskComplete2_def
  using completeWith_twice[OF toggleStatus_twice assms] completeWith_twice[OF toggleStatusDefaulting_twice assms]
  by simp

lemma parseKey_mock: "parseKey ''mock1_0'' = (''mock1'', Some 0)"
  by (simp add: parseKey_def parseIntOpt_def parseInt10_def isWhiteSpace_def isDigit_def digitVal_def)

lemma addressed_mock: "addressedItems ''mock1_0'' (initialAppSample 0) = [hd (structuredContent (hd (sampleMemories 0)))]"
  by (simp add: addressedItems_def parseKey_mock initialAppSample_def initialApp_def sampleMemories_def)

text \<open>The sample Memory \<open>mock1\<close>, item 0: one call changes the state, two restore it.\<close>

theorem handleTaskComplete_involution_witness:
  "map status (addressedItems ''mock1_0'' (initialAppSample 0)) = [Some Pending]
   \<and> handleTaskComplete ''mock1_0'' True (handleTaskComplete ''mock1_0'' True (initialAppSample 0)) = initialAppSample 0
   \<and> handleTaskComplete2 ''mock1_0'' True (handleTaskComplete2 ''mock1_0'' True (initialAppSample 0)) = initialAppSample 0
   \<and> handleTaskComplete ''mock1_0'' True (initialAppSample 0) \<noteq> initialAppSample 0"
proof -
  have a: "addressedItems ''mock1_0'' (initialAppSample 0) = [hd (structuredContent (hd (sampleMemories 0)))]"
    by (rule addressed_mock)
  have st: "map status (addressedItems ''mock1_0'' (initialAppSample 0)) = [Some Pending]"
    by (simp add: a sampleMemories_def)
  have h: "True \<longrightarrow> (\<forall>item \<in> set (addressedItems ''mock1_0'' (initialAppSample 0)). status item \<noteq> None)"
    by (simp add: a sampleMemories_def)
  note twice = handleTaskComplete_involution[OF h]
  have once: "memories (handleTaskComplete ''mock1_0'' True (initialAppSample 0)) \<noteq> memories (initialAppSample 0)"
    by (simp add: handleTaskComplete_def completeWith_def parseKey_mock sampleMemories_def
          initialAppSample_def initialApp_def toggleItemAt_def toggleStatus_def)
  then have "handleTaskComplete ''mock1_0'' True (initialAppSample 0) \<noteq> initialAppSample 0"
    by auto
  then show ?thesis using st twice by simp
qed


subsection \<open>Deleting an item\<close>

lemma enumerate_fst_ge: "p \<in> set (enumerate n xs) \<Longrightarrow> n \<le> fst p"
  by (simp add: in_set_enumerate_eq)

lemma filter_enumerate_below:
  "k < n \<Longrightarrow> map snd (filter (\<lambda>(idx, _). idx \<noteq> k) (enumerate n xs)) = xs"
proof -
  assume "k < n"
  then have "filter (\<lambda>(idx, _). idx \<noteq> k) (enumerate n xs) = enumerate n xs"
    by (intro filter_True) (auto dest: enumerate_fst_ge)
  then show ?thesis by simp
qed

lemma removeAt_aux:
  "map snd (filter (\<lambda>(idx, _). idx \<noteq> n + k) (enumerate n xs)) = take k xs @ drop (Suc k) xs"
proof (induction xs arbitrary: n k)
  case Nil
  then show ?case by simp
next
  case (Cons x xs)
  show ?case
  proof (cases k)
    case 0
    then show ?thesis using filter_enumerate_below[of n "Suc n" xs] by simp
  next
    case (Suc k')
    then show ?thesis using Cons.IH[of "Suc n" k'] by simp
  qed
qed

lemma removeAt_eq: "removeAt k xs = take k xs @ drop (Suc k) xs"
  using removeAt_aux[of 0 k xs] by (simp add: removeAt_def)

lemma deleteOutcome_step:
  "filter (\<lambda>mem. length (structuredContent mem) > 0 \<or> originalText mem = ''Manual Project Creation'')
     [if memId mem = memoryId then mem\<lparr>structuredContent := removeAt k (structuredContent mem)\<rparr> else mem]
   = (case deleteOutcome memoryId k mem of None \<Rightarrow> [] | Some m' \<Rightarrow> [m'])"
proof (cases "memId mem = memoryId \<and> k < length (structuredContent mem)")
  case True
  then show ?thesis
    by (cases "structuredContent mem"; cases "tl (structuredContent mem)")
       (auto simp: deleteOutcome_def removeAt_eq isPlaceholder_def)
next
  case False
  then show ?thesis
    by (auto simp: deleteOutcome_def removeAt_eq isPlaceholder_def)
qed

lemma handleDeleteMemoryItem_map_filter:
  "handleDeleteMemoryItem memoryId k s
     = s\<lparr>memories := List.map_filter (deleteOutcome memoryId k) (memories s)\<rparr>"
proof -
  let ?keep = "\<lambda>mem. length (structuredContent mem) > 0 \<or> originalText mem = ''Manual Project Creation''"
  let ?upd = "\<lambda>mem. if memId mem = memoryId then mem\<lparr>structuredContent := removeAt k (structuredContent mem)\<rparr> else mem"
  let ?one = "\<lambda>mem. case deleteOutcome memoryId k mem of None \<Rightarrow> [] | Some m' \<Rightarrow> [m']"
  have "filter ?keep (map ?upd ms) = List.map_filter (deleteOutcome memoryId k) ms" for ms
  proof (induction ms)
    case Nil
    then show ?case by (simp add: map_filter_simps)
  next
    case (Cons m ms)
    have "filter ?keep (map ?upd (m # ms)) = filter ?keep [?upd m] @ filter ?keep (map ?upd ms)"
      by simp
    also have "\<dots> = ?one m @ List.map_filter (deleteOutcome memoryId k) ms"
      by (simp only: deleteOutcome_step Cons.IH)
    also have "\<dots> = List.map_filter (deleteOutcome memoryId k) (m # ms)"
      by (cases "deleteOutcome memoryId k m") (simp_all add: map_filter_simps)
    finally show ?case .
  qed
  then show ?thesis by (simp add: handleDeleteMemoryItem_def Let_def)
qed

text \<open>
  C5, as amended: \<open>handleDeleteMemoryItem\<close> treats every Memory of the collection as
  \<open>deleteOutcome\<close> says, in order. The Memory with the given id loses item \<open>k\<close>, the
  later items moving down by one; it leaves the collection when that was its last item,
  unless it is a placeholder, which stays with no items. Every other Memory stays as it
  is, except that one with no items that is not a placeholder leaves the collection too.
\<close>

theorem handleDeleteMemoryItem_outcome:
  "handleDeleteMemoryItem memoryId k s
     = s\<lparr>memories := List.map_filter (deleteOutcome memoryId k) (memories s)\<rparr>"
  by (rule handleDeleteMemoryItem_map_filter)

text \<open>
  C5 as stated fails: deleting item 0 of one Memory removes another Memory, which had no
  items, from the collection.
\<close>

theorem handleDeleteMemoryItem_drops_other_memory:
  "emptyNote \<in> set (memories twoNotes) \<and> memId emptyNote \<noteq> memId draftNote
   \<and> emptyNote \<notin> set (memories (handleDeleteMemoryItem (memId draftNote) 0 twoNotes))"
  by (simp add: handleDeleteMemoryItem_map_filter twoNotes_def initialApp_def draftNote_def emptyNote_def
        map_filter_simps deleteOutcome_def isPlaceholder_def)

subsection \<open>Hierarchy, reverse index and reconciliation\<close>

text \<open>What \<open>reconcile\<close> makes of a declared pair, case by case.\<close>

lemma reconcile_General:
  "reconcile cats p2c (c, ''General'') = (if includesOpt cats c then c else first cats, ''General'')"
  by (simp add: reconcile_def)

lemma reconcile_unknown:
  "p \<noteq> ''General'' \<Longrightarrow> \<not> truthyCat (p2c p) \<Longrightarrow>
   reconcile cats p2c (c, p) = (if includesOpt cats c then c else first cats, ''General'')"
  by (simp add: reconcile_def)

lemma reconcile_known:
  "p \<noteq> ''General'' \<Longrightarrow> truthyCat (p2c p) \<Longrightarrow> reconcile cats p2c (c, p) = (p2c p, p)"
  by (simp add: reconcile_def)

text \<open>Under a name that is not inherited, the dictionary of the code is the reverse index
  of the specification.\<close>

lemma assign_projects:
  "foldl (\<lambda>obj q. assign q cat obj) obj projs p
     = (if p \<in> set projs \<and> p \<noteq> ''__proto__'' then Some (Named cat) else obj p)"
  by (induction projs arbitrary: obj) (auto simp: assign_def)

lemma specReverseIndex_Cons:
  "specReverseIndex ((cat, projs) # h) p
     = (case specReverseIndex h p of
          None \<Rightarrow> if p \<in> set projs then Some cat else None
        | Some c \<Rightarrow> Some c)"
  by (auto simp: specReverseIndex_def split: list.splits)

lemma index_entries:
  "foldl (\<lambda>obj (cat, projs). foldl (\<lambda>obj q. assign q cat obj) obj projs) obj h p
     = (if p = ''__proto__'' then obj p
        else case specReverseIndex h p of None \<Rightarrow> obj p | Some c \<Rightarrow> Some (Named c))"
proof -
  define f where "f = (\<lambda>obj (cat, projs). foldl (\<lambda>obj q. assign q cat obj) obj projs)"
  have f: "f obj (cat, projs) q
             = (if q \<in> set projs \<and> q \<noteq> ''__proto__'' then Some (Named cat) else obj q)"
    for obj cat projs q
    by (simp add: f_def assign_projects)
  have "foldl f obj h p
          = (if p = ''__proto__'' then obj p
             else case specReverseIndex h p of None \<Rightarrow> obj p | Some c \<Rightarrow> Some (Named c))"
  proof (induction h arbitrary: obj)
    case Nil
    then show ?case by (simp add: specReverseIndex_def)
  next
    case (Cons e h)
    obtain cat projs where e: "e = (cat, projs)" by (cases e)
    have "foldl f obj (e # h) p = foldl f (f obj (cat, projs)) h p" by (simp add: e)
    also have "\<dots> = (if p = ''__proto__'' then f obj (cat, projs) p
             else case specReverseIndex h p of None \<Rightarrow> f obj (cat, projs) p | Some c \<Rightarrow> Some (Named c))"
      by (rule Cons.IH)
    also have "\<dots> = (if p = ''__proto__'' then obj p
             else case specReverseIndex (e # h) p of None \<Rightarrow> obj p | Some c \<Rightarrow> Some (Named c))"
      by (simp add: f e specReverseIndex_Cons split: option.splits)
    finally show ?case .
  qed
  then show ?thesis by (simp only: f_def)
qed

lemma reverse_index_own:
  assumes "p \<notin> set objectPrototypeKeys"
  shows "projectToCategoryMap h p = map_option Named (specReverseIndex h p)"
proof -
  have "p \<noteq> ''__proto__''" using assms by (auto simp: objectPrototypeKeys_def)
  then show ?thesis
    using assms by (simp add: projectToCategoryMap_def index_entries emptyObject_def split: option.splits)
qed

text \<open>Under an inherited name that no project has, it answers with the member.\<close>

lemma reverse_index_inherited:
  assumes "p \<in> set objectPrototypeKeys" "specReverseIndex h p = None"
  shows "projectToCategoryMap h p = Some (Member p)"
proof -
  have "''__proto__'' \<in> set objectPrototypeKeys" by (simp add: objectPrototypeKeys_def)
  then show ?thesis
    using assms by (simp add: projectToCategoryMap_def index_entries emptyObject_def)
qed

lemma set_AList_update: "e \<in> set (AList.update k v al) \<Longrightarrow> e = (k, v) \<or> e \<in> set al"
  by (induction al) (auto split: if_splits)

lemma ownersNamed_update:
  "ownersNamed h \<Longrightarrow> ps \<noteq> [] \<longrightarrow> c \<noteq> [] \<Longrightarrow> ownersNamed (AList.update c ps h)"
  unfolding ownersNamed_def using set_AList_update[of _ c ps h] by blast

lemma keyOf_truthy: "truthyCat (Some rc) \<Longrightarrow> keyOf rc \<noteq> []"
  by (cases rc) (auto simp: truthyCat_def keyOf_def truthy_def)

lemma ownersNamed_addMemory: "ownersNamed h \<Longrightarrow> ownersNamed (addMemory h m)"
proof (cases "truthyCat (rootCategory m) \<and> truthy (project m) \<and> project m \<noteq> ''General''")
  case False
  then show "ownersNamed h \<Longrightarrow> ownersNamed (addMemory h m)" by (auto simp: addMemory_def)
next
  case True
  assume h: "ownersNamed h"
  from True obtain rc where rc: "rootCategory m = Some rc" by (cases "rootCategory m") (auto simp: truthyCat_def)
  have k: "keyOf rc \<noteq> []" using True rc keyOf_truthy by auto
  have h1: "ownersNamed (case map_of h (keyOf rc) of None \<Rightarrow> AList.update (keyOf rc) [] h | Some _ \<Rightarrow> h)"
    using h by (auto split: option.splits intro: ownersNamed_update)
  show "ownersNamed (addMemory h m)"
    using True rc k h1 by (auto simp: addMemory_def Let_def intro: ownersNamed_update)
qed

lemma ownersNamed_hierarchy: "ownersNamed (getProjectHierarchy cats mems)"
proof -
  have i: "ownersNamed (foldl (\<lambda>h cat. AList.update cat [] h) h cats)" if "ownersNamed h" for h
    using that by (induction cats arbitrary: h) (auto intro: ownersNamed_update)
  have a: "ownersNamed (foldl addMemory h mems)" if "ownersNamed h" for h
    using that by (induction mems arbitrary: h) (auto intro: ownersNamed_addMemory)
  show ?thesis unfolding getProjectHierarchy_def by (intro a i) (simp add: ownersNamed_def)
qed

lemma specReverseIndex_listed:
  "specReverseIndex h p = Some c \<Longrightarrow> \<exists>ps. (c, ps) \<in> set h \<and> p \<in> set ps"
proof (induction h)
  case Nil
  then show ?case by (simp add: specReverseIndex_def)
next
  case (Cons e h)
  obtain cat projs where e: "e = (cat, projs)" by (cases e)
  show ?case
    using Cons by (auto simp: e specReverseIndex_Cons split: option.splits if_splits)
qed

lemma recorded_owner_truthy:
  "ownersNamed h \<Longrightarrow> specReverseIndex h p = Some c \<Longrightarrow> c \<noteq> []"
  using specReverseIndex_listed[of h p c] unfolding ownersNamed_def by fastforce

text \<open>
  So for a gateway answer whose project is not the name of an inherited member, the pair
  that \<open>handleProcessInput\<close> stores is the pair of section 4.2, for the hierarchy
  that the handler computed when it was called.
\<close>

lemma reconcile_spec:
  assumes "reqCategories req \<noteq> []" and "resProject result \<notin> set objectPrototypeKeys"
    and "ownersNamed (reqHierarchy req)"
  shows "(rootCategory (newMemory req result now), project (newMemory req result now))
           = (Some (Named (fst (specReconcile (reqCategories req) (specReverseIndex (reqHierarchy req))
                                  (resRootCategory result, resProject result)))),
              snd (specReconcile (reqCategories req) (specReverseIndex (reqHierarchy req))
                     (resRootCategory result, resProject result)))"
proof -
  let ?h = "reqHierarchy req"
  let ?p = "resProject result"
  have lk: "projectToCategoryMap ?h ?p = map_option Named (specReverseIndex ?h ?p)"
    using assms(2) by (rule reverse_index_own)
  have f: "first (reqCategories req) = Some (Named (hd (reqCategories req)))"
    using assms(1) by (cases "reqCategories req") (simp_all add: first_def)
  show ?thesis
  proof (cases "specReverseIndex ?h ?p")
    case None
    then show ?thesis
      using lk f
      by (simp add: newMemory_def reconcile_def specReconcile_def specFallback_def Let_def
            truthyCat_def includesOpt_def)
  next
    case (Some c)
    then have "c \<noteq> []" using assms(3) recorded_owner_truthy by blast
    then show ?thesis
      using lk f Some
      by (simp add: newMemory_def reconcile_def specReconcile_def specFallback_def Let_def
            truthyCat_def includesOpt_def truthy_def)
  qed
qed

lemmas eval_defs = handleAddProject_def initialApp_def handleProcessInput_begin_def trim_def
  isWhiteSpace_def isGoal_def toLowerCase_def toLowerChar_def sublist_code truthy_def truthyOpt_def
  truthyCat_def keyOf_def orElse_def isProjectNameGloballyUnique_def placeholderMemory_def
  getProjectHierarchy_def addMemory_def managerProjects_def handleDeleteProject_def
  handleProcessInput_def handleProcessInput_resume_def tryBlock_def catchBlock_def finallyBlock_def
  newMemory_def reconcile_def projectToCategoryMap_def assign_def emptyObject_def
  objectPrototypeKeys_def includesOpt_def first_def Let_def

lemma japan_hierarchy:
  "getProjectHierarchy [''Travel'', ''Life''] [japanMemory] = [(''Travel'', [''Japan'']), (''Life'', [])]"
  by (simp add: japanMemory_def eval_defs)

text \<open>The example of the claim: with \<open>["Travel","Life"]\<close> and \<open>Japan\<close> under \<open>Travel\<close>,
  the answer \<open>{rootCategory: "Life", project: "Japan"}\<close> is stored as \<open>Travel\<close>,
  \<open>Japan\<close>.\<close>

lemma japan_example:
  "storedPairs (handleProcessInput (Inl NetworkError) (Inr gatewaySaysLife) 1700000000500 japanApp)
     = [(Some (Named ''Travel''), ''Japan''), (Some (Named ''Travel''), ''Japan'')]"
  by (simp add: storedPairs_def japanApp_def japanMemory_def gatewaySaysLife_def eval_defs)

text \<open>
  C1 fails on a project named like an inherited member. At the first start there is no
  Memory, so the reverse index of section 4.2 has no project in it, and for the answer
  \<open>{rootCategory: "Learning", project: "constructor"}\<close> the specification stores
  \<open>Learning\<close> and \<open>General\<close>. The handler reads \<open>projectToCategoryMap['constructor']\<close>
  from a plain object, finds the inherited function, takes the project for a known one,
  and stores the project \<open>constructor\<close> with that function as its root category.
\<close>

theorem inherited_member_stored_as_category:
  "memories constructorDraft = []
   \<and> availableCategories constructorDraft = [''Travel'', ''Learning'', ''Inspiration'', ''Work'', ''Life'']
   \<and> specReverseIndex (getProjectHierarchy (availableCategories constructorDraft) (memories constructorDraft))
        ''constructor'' = None
   \<and> specReconcile (availableCategories constructorDraft)
        (specReverseIndex (getProjectHierarchy (availableCategories constructorDraft) (memories constructorDraft)))
        (resRootCategory gatewaySaysConstructor, resProject gatewaySaysConstructor)
       = (''Learning'', ''General'')
   \<and> storedPairs (handleProcessInput (Inl NetworkError) (Inr gatewaySaysConstructor) 1700000000500
                     constructorDraft)
       = [(Some (Member ''constructor''), ''constructor'')]"
  by (simp add: storedPairs_def constructorDraft_def gatewaySaysConstructor_def specReconcile_def
        specReverseIndex_def specFallback_def eval_defs)

subsection \<open>Failure of the classification call\<close>

lemma processInput_fails:
  assumes "r = Throws \<or> r = Response None \<or> r = Response (Some [])
           \<or> (\<exists>t. r = Response (Some t) \<and> jsonParse (cleanJson t) = None)"
  shows "\<exists>e. processInput jsonParse r = Inl e"
  using assms by (auto simp: processInput_def truthyOpt_def truthy_def split: option.splits)

text \<open>
  C8 (a failed classification changes nothing): when \<open>handleProcessInput\<close> makes the
  classification call and the call fails, because the SDK throws, because the response has
  no text, or because the text, cleaned of its fences, does not parse, the continuation
  returns normally (\<open>Inr\<close>: nothing is thrown out of the handler), and the state it
  leaves differs from the state it found only by the failure notice and by
  \<open>isProcessing\<close> being reset; the Memories and the Tasks are as they were. The same
  holds for the handler run in one piece.
\<close>

theorem classification_failure_leaves_collections:
  assumes "handleProcessInput_begin s = (s1, Some req)" and "\<not> reqIsPlan req"
    and "r = Throws \<or> r = Response None \<or> r = Response (Some [])
         \<or> (\<exists>t. r = Response (Some t) \<and> jsonParse (cleanJson t) = None)"
  shows "handleProcessInput_resume req planOutcome (processInput jsonParse r) now s'
           = Inr (s'\<lparr>notices := notices s' @ [ProcessingFailed], isProcessing := False\<rparr>)
       \<and> handleProcessInput planOutcome (processInput jsonParse r) now s
           = Inr (s\<lparr>notices := notices s @ [ProcessingFailed], isProcessing := False\<rparr>)"
proof -
  obtain e where e: "processInput jsonParse r = Inl e"
    using processInput_fails[OF assms(3)] by blast
  have resume: "handleProcessInput_resume req planOutcome (processInput jsonParse r) now t
           = Inr (t\<lparr>notices := notices t @ [ProcessingFailed], isProcessing := False\<rparr>)" for t
    using e assms(2)
    by (simp add: handleProcessInput_resume_def tryBlock_def catchBlock_def finallyBlock_def)
  have s1: "s1 = s\<lparr>isProcessing := True\<rparr>"
    using assms(1) by (auto simp: handleProcessInput_begin_def split: if_splits)
  have "handleProcessInput planOutcome (processInput jsonParse r) now s
          = handleProcessInput_resume req planOutcome (processInput jsonParse r) now s1"
    using assms(1) by (simp add: handleProcessInput_def)
  then show ?thesis using resume s1 by simp
qed

lemma begin_ramen:
  "handleProcessInput_begin ramenDraft = (ramenDraft\<lparr>isProcessing := True\<rparr>, Some ramenRequest)"
  by (simp add: handleProcessInput_begin_def ramenDraft_def ramenRequest_def initialApp_def
        getProjectHierarchy_def trim_def isWhiteSpace_def isGoal_def toLowerCase_def
        toLowerChar_def sublist_code truthy_def truthyOpt_def)

text \<open>The note is sent for classification and the network fails.\<close>

theorem classification_failure_witness:
  "handleProcessInput_begin ramenDraft = (ramenDraft\<lparr>isProcessing := True\<rparr>, Some ramenRequest)
   \<and> \<not> reqIsPlan ramenRequest
   \<and> handleProcessInput (Inl NetworkError) (processInput (\<lambda>t. None) Throws) 1700000000000 ramenDraft
       = Inr (ramenDraft\<lparr>notices := [ProcessingFailed]\<rparr>)
   \<and> memories ramenDraft = [] \<and> tasks ramenDraft = []"
proof -
  have plan: "\<not> reqIsPlan ramenRequest" by (simp add: ramenRequest_def)
  have r: "Throws = Throws \<or> Throws = Response None \<or> Throws = Response (Some [])
         \<or> (\<exists>t. Throws = Response (Some t) \<and> (\<lambda>t. None :: ProcessingResult option) (cleanJson t) = None)"
    by simp
  have "handleProcessInput (Inl NetworkError) (processInput (\<lambda>t. None) Throws) 1700000000000 ramenDraft
       = Inr (ramenDraft\<lparr>notices := notices ramenDraft @ [ProcessingFailed], isProcessing := False\<rparr>)"
    using classification_failure_leaves_collections[OF begin_ramen plan r] by blast
  moreover have "ramenDraft\<lparr>notices := notices ramenDraft @ [ProcessingFailed], isProcessing := False\<rparr>
      = ramenDraft\<lparr>notices := [ProcessingFailed]\<rparr>"
    by (simp add: ramenDraft_def initialApp_def)
  ultimately show ?thesis using begin_ramen plan by (simp add: ramenDraft_def initialApp_def)
qed

subsection \<open>Backward-delete of a tag\<close>

lemma set_uniq: "set (uniq xs) = set xs"
  by (simp add: uniq_def)

lemma set_allTagsForDelete: "set (allTagsForDelete s) = {t \<in> knownTags s. t \<in> set (availableCategories s) \<or> t \<noteq> []}"
  by (auto simp: allTagsForDelete_def sortByLengthDesc_def Let_def set_uniq truthy_def knownTags_def)

lemma sorted_allTagsForDelete: "sorted (map (\<lambda>t. - int (length t)) (allTagsForDelete s))"
  by (simp add: allTagsForDelete_def sortByLengthDesc_def Let_def)

lemma find_first_least:
  assumes "sorted (map f xs)" "find P xs = Some x" "y \<in> set xs" "P y"
  shows "f x \<le> f y"
proof -
  obtain i where i: "i < length xs" "x = xs ! i" "\<forall>j<i. \<not> P (xs ! j)"
    using assms(2) by (auto simp: find_Some_iff)
  obtain j where j: "j < length xs" "y = xs ! j"
    using assms(3) by (auto simp: in_set_conv_nth)
  have "i \<le> j" using i(3) j(2) assms(4) by (meson not_le_imp_less)
  then have "map f xs ! i \<le> map f xs ! j"
    using assms(1) j(1) by (simp add: sorted_iff_nth_mono)
  then show ?thesis using i j by simp
qed

lemma find_finds: "y \<in> set xs \<Longrightarrow> P y \<Longrightarrow> \<exists>x. find P xs = Some x \<and> x \<in> set xs \<and> P x"
  by (cases "find P xs") (auto simp: find_None_iff find_Some_iff)

text \<open>
  C6 (backward-delete removes a whole tag): the cursor is in the text with no selection,
  and the text before it ends with \<open>/tag\<close> for a known, non-empty tag. Then Backspace
  is intercepted (\<open>preventDefault\<close>), the text loses the token \<open>/longest\<close> that ends
  at the cursor, where \<open>longest\<close> is the longest known tag whose token ends there, and
  the cursor is put where that token began.
\<close>

theorem backspace_removes_tag:
  assumes "tag \<in> knownTags s" and "tag \<noteq> []" and "cursor \<le> length (inputText s)"
    and "take cursor (inputText s) = before @ CHR ''/'' # tag"
  shows "\<exists>start longest.
           take cursor (inputText s) = start @ CHR ''/'' # longest
         \<and> handleKeyDown Backspace cursor cursor s
             = (s\<lparr>inputText := start @ drop cursor (inputText s)\<rparr>, True, Some (length start))
         \<and> longest \<in> knownTags s
         \<and> (\<forall>t \<in> knownTags s. suffix (CHR ''/'' # t) (take cursor (inputText s)) \<longrightarrow> length t \<le> length longest)"
proof -
  let ?P = "\<lambda>t. suffix (CHR ''/'' # t) (take cursor (inputText s))"
  have tag_in: "tag \<in> set (allTagsForDelete s)"
    using assms(1,2) by (simp add: set_allTagsForDelete)
  have Ptag: "?P tag" using assms(4) by (simp add: suffix_def)
  obtain longest where found: "find ?P (allTagsForDelete s) = Some longest"
    and mem: "longest \<in> set (allTagsForDelete s)" and Pl: "?P longest"
    using find_finds[OF tag_in, of ?P] Ptag by blast
  have longest: "length t \<le> length longest" if "t \<in> knownTags s" "?P t" for t
  proof (cases "t \<in> set (allTagsForDelete s)")
    case True
    then have "- int (length longest) \<le> - int (length t)"
      using find_first_least[OF sorted_allTagsForDelete found _ that(2)] by simp
    then show ?thesis by simp
  next
    case False
    then have "t = []" using that(1) by (auto simp: set_allTagsForDelete)
    then show ?thesis by simp
  qed
  have "length tag \<le> length longest" using longest[OF assms(1) Ptag] .
  then have truthy: "truthy longest" using assms(2) by (auto simp: truthy_def)
  obtain start where start: "take cursor (inputText s) = start @ CHR ''/'' # longest"
    using Pl by (auto simp: suffix_def)
  have len: "cursor = length start + (length longest + 1)"
    using arg_cong[OF start, of length] assms(3) by simp
  have "take (length start) (inputText s) = start"
    using arg_cong[OF start, of "take (length start)"] len by (simp add: min_def)
  then have res: "handleKeyDown Backspace cursor cursor s
             = (s\<lparr>inputText := start @ drop cursor (inputText s)\<rparr>, True, Some (length start))"
    using found truthy len by (simp add: handleKeyDown_def Let_def)
  have "longest \<in> knownTags s" using mem by (simp add: set_allTagsForDelete)
  then show ?thesis using start res longest by blast
qed

text \<open>With the project \<open>Korea Trip\<close> known and the cursor right after \<open>/Korea Trip\<close>,
  Backspace leaves the empty text with the cursor at 0.\<close>

theorem backspace_removes_tag_witness:
  "''Korea Trip'' \<in> knownTags koreaDraft \<and> ''Korea Trip'' \<noteq> []
   \<and> 11 \<le> length (inputText koreaDraft)
   \<and> take 11 (inputText koreaDraft) = [] @ CHR ''/'' # ''Korea Trip''
   \<and> handleKeyDown Backspace 11 11 koreaDraft = (koreaDraft\<lparr>inputText := []\<rparr>, True, Some 0)"
proof -
  have known: "''Korea Trip'' \<in> knownTags koreaDraft"
    by (simp add: knownTags_def koreaDraft_def initialAppSample_def initialApp_def sampleMemories_def)
  have ne: "''Korea Trip'' \<noteq> []" by simp
  have itext: "inputText koreaDraft = ''/Korea Trip''" by (simp add: koreaDraft_def)
  have len: "11 \<le> length (inputText koreaDraft)" by (simp add: itext)
  have tk: "take 11 (inputText koreaDraft) = [] @ CHR ''/'' # ''Korea Trip''" by (simp add: itext)
  obtain start longest where
    sp: "take 11 (inputText koreaDraft) = start @ CHR ''/'' # longest"
    and res: "handleKeyDown Backspace 11 11 koreaDraft
             = (koreaDraft\<lparr>inputText := start @ drop 11 (inputText koreaDraft)\<rparr>, True, Some (length start))"
    and lg: "\<forall>t \<in> knownTags koreaDraft. suffix (CHR ''/'' # t) (take 11 (inputText koreaDraft)) \<longrightarrow> length t \<le> length longest"
    using backspace_removes_tag[OF known ne len tk] by blast
  have "length ''Korea Trip'' \<le> length longest"
    using lg known tk by (auto simp: suffix_def)
  then have "10 \<le> length longest" by simp
  moreover have "length start + (length longest + 1) = 11"
    using arg_cong[OF sp, of length] by (simp add: itext)
  ultimately have "length start = 0" by linarith
  then have "start = []" by simp
  then show ?thesis using res known len tk by (simp add: itext)
qed

subsection \<open>Uniqueness of project names\<close>

lemma reachable_run:
  "reachable c \<Longrightarrow> run es c \<noteq> None \<Longrightarrow> reachable (foldl (\<lambda>c e. step e c) c es)"
proof (induction es arbitrary: c)
  case Nil
  then show ?case by simp
next
  case (Cons e es)
  then have en: "enabled e c" and rest: "run es (step e c) \<noteq> None"
    by (simp_all split: if_splits)
  have "reachable (step e c)" using Cons.prems(1) en by (rule reach_step)
  then show ?case using Cons.IH rest by simp
qed

lemma owners_list: "owners mems P = set (map rootCategory (filter (\<lambda>m. project m = P) mems))"
  by (auto simp: owners_def)

lemma race_enabled: "run raceEvents (initialApp, None) \<noteq> None"
  by (simp add: raceEvents_def gatewaySaysLife_def eval_defs)

lemma race_owners:
  "map rootCategory (filter (\<lambda>m. project m = ''Japan'') (memories (fst raceEnd)))
     = [Some (Named ''Travel''), Some (Named ''Life'')]"
  by (simp add: raceEnd_def raceEvents_def gatewaySaysLife_def eval_defs)

text \<open>When the call settles, the hierarchy of the collection has \<open>Japan\<close> under
  \<open>Life\<close>; the handler uses the one it computed before the call.\<close>

lemma race_index:
  "specReverseIndex (getProjectHierarchy (availableCategories (fst raceEnd))
      (tl (memories (fst raceEnd)))) ''Japan'' = Some ''Life''"
  by (simp add: raceEnd_def raceEvents_def gatewaySaysLife_def specReverseIndex_def eval_defs)

text \<open>
  C2 fails on the run \<open>raceEvents\<close>, which is a run of the application and ends with
  the project \<open>Japan\<close> owned by two categories. The classification was requested while
  \<open>Japan\<close> was under \<open>Travel\<close>; before it settled, the project was deleted in the
  structure manager and created again under \<open>Life\<close>; the continuation then stored its
  Memory under the owner that the hierarchy of its own render recorded.
\<close>

theorem project_owned_twice_after_race:
  "reachable raceEnd
   \<and> owners (memories (fst raceEnd)) ''Japan'' = {Some (Named ''Travel''), Some (Named ''Life'')}
   \<and> card (owners (memories (fst raceEnd)) ''Japan'') = 2"
proof -
  have r: "reachable raceEnd"
    unfolding raceEnd_def by (rule reachable_run[OF reach_start race_enabled])
  have o: "owners (memories (fst raceEnd)) ''Japan'' = {Some (Named ''Travel''), Some (Named ''Life'')}"
    by (simp only: owners_list race_owners) simp
  have "card {Some (Named ''Travel''), Some (Named ''Life'')} = 2" by simp
  then show ?thesis using r o by simp
qed

text \<open>
  Two owners arise without any interleaving as well. The first answer that names the
  project \<open>constructor\<close> is stored with the inherited function as root category; the
  hierarchy then lists the project under the source text of that function, and the
  second answer is stored with that string as root category.
\<close>

lemma twice_enabled: "run twiceEvents (initialApp, None) \<noteq> None"
  by (simp add: twiceEvents_def gatewaySaysConstructor_def eval_defs)

lemma inherited_member_owned_twice:
  "reachable twiceEnd
   \<and> map rootCategory (filter (\<lambda>m. project m = ''constructor'') (memories (fst twiceEnd)))
       = [Some (Named ''function Object() { [native code] }''), Some (Member ''constructor'')]"
proof -
  have r: "reachable twiceEnd"
    unfolding twiceEnd_def by (rule reachable_run[OF reach_start twice_enabled])
  have "map rootCategory (filter (\<lambda>m. project m = ''constructor'') (memories (fst twiceEnd)))
       = [Some (Named ''function Object() { [native code] }''), Some (Member ''constructor'')]"
    by (simp add: twiceEnd_def twiceEvents_def gatewaySaysConstructor_def eval_defs)
  then show ?thesis using r by simp
qed

text \<open>
  The part of C2 about refusals holds in every state: a name that, trimmed, is the project
  of some Memory and is not \<open>'General'\<close> is refused by \<open>handleAddProject\<close> and by
  \<open>handleUpdateProjectName\<close>, with a notice and no other change; \<open>'General'\<close> passes the
  check.
\<close>

lemma handleAddProject_rejects:
  assumes "name = (if truthyOpt target then tempProjectName s else newProjectName s)"
    and "trim name \<in> project ` set (memories s)" and "trim name \<noteq> ''General''" and "trim name \<noteq> []"
  shows "handleAddProject target now s = s\<lparr>notices := notices s @ [ProjectExists]\<rparr>"
proof -
  have "\<not> isProjectNameGloballyUnique (memories s) (trim name)"
    using assms(2,3) by (simp add: isProjectNameGloballyUnique_def)
  moreover have "truthy (trim name)" using assms(4) by (simp add: truthy_def)
  ultimately show ?thesis
    unfolding handleAddProject_def Let_def assms(1)[symmetric] by simp
qed

lemma handleUpdateProjectName_rejects:
  assumes "trim newName \<in> project ` set (memories s)" and "trim newName \<noteq> ''General''"
    and "trim newName \<noteq> []" and "newName \<noteq> oldName"
  shows "handleUpdateProjectName oldName newName s = s\<lparr>notices := notices s @ [ProjectExists]\<rparr>"
proof -
  have "\<not> isProjectNameGloballyUnique (memories s) (trim newName)"
    using assms(1,2) by (simp add: isProjectNameGloballyUnique_def)
  moreover have "truthy (trim newName)" using assms(3) by (simp add: truthy_def)
  ultimately show ?thesis
    using assms(4) unfolding handleUpdateProjectName_def by simp
qed

lemma General_passes: "isProjectNameGloballyUnique mems ''General''"
  by (simp add: isProjectNameGloballyUnique_def)

subsection \<open>Non-emptiness of the category list\<close>

lemma handleDeleteCategory_last:
  "length (availableCategories s) \<le> 1 \<Longrightarrow>
   handleDeleteCategory cat s = s\<lparr>notices := notices s @ [KeepOneCategory]\<rparr>"
  by (simp add: handleDeleteCategory_def)

lemma filter_distinct_length:
  "distinct xs \<Longrightarrow> length xs - 1 \<le> length (filter (\<lambda>c. c \<noteq> x) xs)"
proof -
  assume d: "distinct xs"
  have "filter (\<lambda>c. c \<noteq> x) xs = removeAll x xs"
    by (induction xs) auto
  also have "\<dots> = remove1 x xs" using d by (simp add: distinct_remove1_removeAll)
  finally show ?thesis by (simp add: length_remove1)
qed

lemma handleDeleteCategory_proper:
  assumes "properList (availableCategories s)"
  shows "properList (availableCategories (handleDeleteCategory cat s))"
proof (cases "length (availableCategories s) \<le> 1")
  case True
  then show ?thesis using assms by (simp add: handleDeleteCategory_def)
next
  case False
  have d: "distinct (availableCategories s)" using assms by (simp add: properList_def)
  have "1 \<le> length (filter (\<lambda>c. c \<noteq> cat) (availableCategories s))"
    using False filter_distinct_length[OF d, of cat] by simp
  then have "filter (\<lambda>c. c \<noteq> cat) (availableCategories s) \<noteq> []" by auto
  then show ?thesis using False d by (simp add: handleDeleteCategory_def properList_def)
qed

lemma handleAddCategory_proper:
  "properList (availableCategories s) \<Longrightarrow> properList (availableCategories (handleAddCategory s))"
  by (simp add: handleAddCategory_def properList_def)

text \<open>Renaming keeps the length of the list, though not the names apart.\<close>

lemma handleUpdateCategoryName_length:
  "length (availableCategories (handleUpdateCategoryName oldName newName s))
     = length (availableCategories s)"
  by (simp add: handleUpdateCategoryName_def)

text \<open>No other handler touches the list.\<close>

lemma resume_categories:
  "handleProcessInput_resume req po co now s = Inr s' \<Longrightarrow> availableCategories s' = availableCategories s"
  by (auto simp: handleProcessInput_resume_def tryBlock_def catchBlock_def finallyBlock_def Let_def
      split: if_splits sum.splits)

lemma step_categories:
  assumes "properList (availableCategories (fst c))"
  shows "properList (availableCategories (fst (step e c)))"
proof -
  obtain s p where c: "c = (s, p)" by (cases c)
  have s: "properList (availableCategories s)" using assms c by simp
  show ?thesis
  proof (cases e)
    case Submit
    then show ?thesis using s by (simp add: c handleProcessInput_begin_def)
  next
    case (Settle po co now)
    show ?thesis
    proof (cases p)
      case None
      then show ?thesis using s Settle by (simp add: c)
    next
      case (Some req)
      then show ?thesis
        using s Settle resume_categories[of req po co now s]
        by (cases "handleProcessInput_resume req po co now s") (simp_all add: c)
    qed
  next
    case (Complete ident isMem)
    then show ?thesis using s by (simp add: c handleTaskComplete_def completeWith_def Let_def)
  next
    case (DeleteItem mid idx)
    then show ?thesis using s by (simp add: c handleDeleteMemoryItem_def Let_def)
  next
    case (UpdateItem mid idx item)
    then show ?thesis
      using s by (auto simp: c handleUpdateMemoryItem_def split: option.splits if_splits)
  next
    case AddCategory
    then show ?thesis using s by (simp add: c handleAddCategory_proper)
  next
    case (DeleteCategory cat)
    then show ?thesis using s by (simp add: c handleDeleteCategory_proper)
  next
    case (AddProject fromManager now)
    then show ?thesis using s by (simp add: c handleAddProject_def Let_def)
  next
    case (DeleteProject proj)
    then show ?thesis using s by (simp add: c handleDeleteProject_def)
  next
    case (RenameProject proj newName)
    then show ?thesis using s by (simp add: c handleUpdateProjectName_def)
  next
    case Restart
    then show ?thesis using s by (simp add: c restart_def)
  qed (use s in \<open>simp_all add: c\<close>)
qed

lemma reachable_categories: "reachable c \<Longrightarrow> properList (availableCategories (fst c))"
proof (induction rule: reachable.induct)
  case reach_start
  show ?case by (simp add: properList_def initialApp_def)
next
  case (reach_sample now)
  show ?case by (simp add: properList_def initialAppSample_def initialApp_def)
next
  case (reach_step c e)
  then show ?case by (simp add: step_categories)
qed

text \<open>
  C9 (the category list is never empty): in every state that the events lead to, a
  gateway call in flight and a restart from storage included, the list is not empty and
  holds no name twice. With one category left, \<open>handleDeleteCategory\<close> changes nothing
  but the notices: the state is the old one with the notice added. Deleting with more
  than one category left, adding, and loading the stored list at startup leave the list
  non-empty. So does \<open>handleUpdateCategoryName\<close>, which keeps the length of the list;
  the component never calls it.
\<close>

theorem category_list_never_empty:
  assumes "reachable (s, p)"
  shows "availableCategories s \<noteq> [] \<and> distinct (availableCategories s)
       \<and> (length (availableCategories s) = 1 \<longrightarrow>
            handleDeleteCategory cat s = s\<lparr>notices := notices s @ [KeepOneCategory]\<rparr>)
       \<and> availableCategories (handleDeleteCategory cat s) \<noteq> []
       \<and> availableCategories (handleAddCategory s) \<noteq> []
       \<and> availableCategories (handleUpdateCategoryName oldName newName s) \<noteq> []
       \<and> availableCategories (restart s) \<noteq> []"
proof -
  have i: "properList (availableCategories s)"
    using reachable_categories[OF assms] by simp
  then have n: "availableCategories s \<noteq> []" and d: "distinct (availableCategories s)"
    by (simp_all add: properList_def)
  have r: "availableCategories (handleUpdateCategoryName oldName newName s) \<noteq> []"
    using n handleUpdateCategoryName_length[of oldName newName s] by (metis length_0_conv)
  show ?thesis
    using n d r handleDeleteCategory_proper[OF i, of cat] handleAddCategory_proper[OF i]
    by (simp add: properList_def handleDeleteCategory_last restart_def)
qed

lemma lastCategory_run:
  "run lastCategoryEvents (initialApp, None) \<noteq> None"
  "foldl (\<lambda>c e. step e c) (initialApp, None) lastCategoryEvents = (lastCategory, None)"
  by (simp_all add: lastCategoryEvents_def lastCategory_def initialApp_def handleDeleteCategory_def)

text \<open>After all categories but \<open>Travel\<close> are deleted, deleting \<open>Travel\<close> only shows the
  notice.\<close>

theorem category_list_never_empty_witness:
  "reachable (lastCategory, None)
   \<and> availableCategories lastCategory = [''Travel'']
   \<and> handleDeleteCategory ''Travel'' lastCategory = lastCategory\<lparr>notices := [KeepOneCategory]\<rparr>
   \<and> availableCategories (handleDeleteCategory ''Travel'' lastCategory) = [''Travel'']"
proof -
  have r: "reachable (lastCategory, None)"
    using reachable_run[OF reach_start lastCategory_run(1)] by (simp only: lastCategory_run(2))
  have l: "length (availableCategories lastCategory) = 1" by (simp add: lastCategory_def)
  have n: "notices lastCategory = []" by (simp add: lastCategory_def initialApp_def)
  have "handleDeleteCategory ''Travel'' lastCategory
          = lastCategory\<lparr>notices := notices lastCategory @ [KeepOneCategory]\<rparr>"
    using category_list_never_empty[OF r, of "''Travel''"] l by blast
  then have d: "handleDeleteCategory ''Travel'' lastCategory = lastCategory\<lparr>notices := [KeepOneCategory]\<rparr>"
    by (simp only: n append_Nil)
  show ?thesis using r d by (simp add: lastCategory_def)
qed

subsection \<open>Agenda of the selected date\<close>

lemma planDayNumber_whole_days:
  "getTime selectedDate = getTime today + n * 86400000 \<Longrightarrow> planDayNumber today selectedDate = n + 1"
  by (simp add: planDayNumber_def ceilDiv_def Let_def)

lemma planDayNumber_later_that_day:
  assumes "getTime today < getTime selectedDate" "getTime selectedDate \<le> getTime today + 86400000"
  shows "planDayNumber today selectedDate = 2"
proof -
  define d where "d = getTime selectedDate - getTime today"
  have d: "0 < d" "d \<le> 86400000" using assms by (simp_all add: d_def)
  have "(- d) div 86400000 = - 1"
    using d by (intro int_div_pos_eq[where r = "86400000 - d"]) simp_all
  then show ?thesis by (simp add: planDayNumber_def ceilDiv_def Let_def d_def)
qed

lemma formatDate_15: "formatDate morning15 = ''2025.10.15''" "formatDate midnight15 = ''2025.10.15''"
  by (simp_all add: formatDate_def morning15_def midnight15_def showInt_def showNat.simps
        digitChar_def padStart2_def)

text \<open>
  C4: on the day the application is opened, the agenda of the selected date, which is
  today, has the item of the sample Memory dated \<open>2025.10.15\<close> but neither of the two
  Tasks of day 1: \<open>selectedDate\<close> is the time of opening, ten hours after midnight, the
  quotient is rounded up to 1, and the Tasks shown are those of day 2. Once the same day
  is picked in the calendar, \<open>selectedDate\<close> is local midnight and the Tasks of day 1
  come first, in collection order, before the Memory item.
\<close>

theorem agenda_on_opening_misses_day_one:
  "planDayNumber midnight15 morning15 = 2
   \<and> map itemTitle (allItems midnight15 morning15 sampleTasks (sampleMemories 1760522400000))
       = [''Gyeongbokgung Palace'']
   \<and> map itemTitle (allItems midnight15 midnight15 sampleTasks (sampleMemories 1760522400000))
       = [''Day 1: Check flights'', ''Day 1: Pack luggage'', ''Gyeongbokgung Palace'']"
proof -
  have p: "planDayNumber midnight15 morning15 = 2"
    by (rule planDayNumber_later_that_day) (simp_all add: midnight15_def morning15_def)
  have q: "planDayNumber midnight15 midnight15 = 1"
    using planDayNumber_whole_days[of midnight15 midnight15 0] by simp
  show ?thesis
    by (simp add: p q allItems_def standardTasks_def memoryTasks_def formatDate_15 sampleTasks_def
          sampleMemories_def)
qed

subsection \<open>Memory browser\<close>

lemma korea_grouped:
  "groupedData koreaBrowser
     = [(''Korea Trip'', [(''Seoul'', [seoulMemory]), (''Busan'', [busanMemory])])]"
  by (simp add: groupedData_def filteredMemories_def koreaBrowser_def initialApp_def groupMemory_def
        Let_def truthy_def orElse_def seoulMemory_def busanMemory_def)

lemma korea_cards:
  "map displayDate (cardsOf epochDate seoulMemory) = [''2025.12.30'', ''2025.10.15'']"
  "map displayDate (cardsOf epochDate busanMemory) = [''2025.11.01'']"
  by (simp_all add: cardsOf_def seoulMemory_def busanMemory_def orElse_def truthy_def)

text \<open>
  C7: with two sub-projects in the project, the first copy of the view (lines 559-579)
  shows the items of \<open>Seoul\<close> in the order in which they are stored, \<open>2025.12.30\<close>
  before \<open>2025.10.15\<close>; the second copy (lines 1814-1834) shows them sorted by display
  date.
\<close>

theorem browser_shows_items_unsorted:
  "shownDates (renderMemoryView epochDate koreaBrowser)
     = [(''Korea Trip'', [(''Seoul'', [''2025.12.30'', ''2025.10.15'']), (''Busan'', [''2025.11.01''])])]
   \<and> shownDates (renderMemoryView2 lexCompare epochDate koreaBrowser)
     = [(''Korea Trip'', [(''Seoul'', [''2025.10.15'', ''2025.12.30'']), (''Busan'', [''2025.11.01''])])]
   \<and> generalCards (renderMemoryView epochDate koreaBrowser) = []"
proof -
  have s: "sortBy (\<lambda>a b. lexCompare (displayDate a) (displayDate b)) (cardsOf epochDate seoulMemory)
            = rev (cardsOf epochDate seoulMemory)"
    by (simp add: sortBy_def cardsOf_def seoulMemory_def orElse_def truthy_def)
  have b: "sortBy (\<lambda>a b. lexCompare (displayDate a) (displayDate b)) (cardsOf epochDate busanMemory)
            = cardsOf epochDate busanMemory"
    by (simp add: sortBy_def cardsOf_def busanMemory_def orElse_def truthy_def)
  show ?thesis
    by (simp add: shownDates_def renderMemoryView_def renderMemoryView2_def renderFolders_def
          renderGeneral_def korea_grouped korea_cards s b rev_map[symmetric])
qed

text \<open>The part of C7 about \<open>'General'\<close> holds in both copies: no folder is made for it.\<close>

lemma no_General_folder:
  assumes "f \<in> set (renderFolders arrange newDate s)"
  shows "projectName f \<noteq> ''General''"
proof -
  obtain name subProjects where "(name, subProjects) \<in> set (filter (\<lambda>(p, _). p \<noteq> ''General'') (groupedData s))"
    and "projectName f = name"
    using assms unfolding renderFolders_def by auto
  then show ?thesis by auto
qed

end
